theory Spec2Isabelle
  imports Main
begin

text \<open>
  A model of the construction of data class instances from raw data: the type predicates,
  the matcher \<open>is_instance\<close> and the transformer \<open>transform_value\<close> of \<open>types.py\<close>, the
  \<open>Config\<close> of \<open>config.py\<close>, and the builder and the record assembler of \<open>core.py\<close>
  (\<open>_build_value\<close>, \<open>_build_value_for_union\<close>, \<open>_build_value_for_collection\<close>,
  \<open>from_dict\<close>). Python's exceptions are values: a function that may raise returns
  \<open>exn + 'a\<close>, with \<open>Inl\<close> for the exception.
\<close>

section \<open>Runtime values, classes and declared types\<close>

text \<open>
  The classes a runtime value or the origin of a generic type can have. \<open>CMapping\<close> and
  \<open>CCollection\<close> are the abstract base classes of \<open>collections.abc\<close>, \<open>CType\<close> is
  \<open>type\<close>, \<open>CNdarray\<close> is \<open>numpy.ndarray\<close> and \<open>CUser n\<close> is a user-defined class (a data
  class when the class table has an entry for \<open>n\<close>).
\<close>

datatype cls =
    CObject | CNoneType | CBool | CInt | CFloat | CComplex | CStr | CBytes
  | CList | CTuple | CDict | CSet | CFrozenSet
  | CMapping | CCollection | CType | CNdarray
  | CUser string

text \<open>
  Runtime values: the raw input tree (mappings, sequences, scalars, null) and the data
  class instances that construction produces. A dict and a set keep their items in
  iteration order. Floating-point values are left out of the value universe; the classes
  \<open>float\<close> and \<open>complex\<close> remain as declared types.
\<close>

datatype val =
    VNone
  | VBool bool
  | VInt int
  | VStr string
  | VBytes string
  | VList "val list"
  | VTuple "val list"
  | VSet "val list"
  | VFrozenSet "val list"
  | VDict "(val \<times> val) list"
  | VObj string "(string \<times> val) list"

text \<open>
  Declared types. \<open>TBareGeneric c\<close> is an unsubscripted alias of \<open>typing\<close> with origin
  \<open>c\<close> (\<open>List\<close>, \<open>Mapping\<close>, \<open>Type\<close>), \<open>TGeneric c args\<close> a subscripted one
  (\<open>List[int]\<close>, \<open>Tuple[int, ...]\<close>, \<open>Type[X]\<close>). \<open>TEllipsis\<close> and \<open>TValue v\<close> are the
  objects that are no types but stand where the code expects one: \<open>...\<close> in
  \<open>Tuple[T, ...]\<close>, \<open>()\<close> in \<open>Tuple[()]\<close>, the values of a \<open>Literal\<close>, and the \<open>None\<close>
  that \<open>zip_longest\<close> pads with.
\<close>

datatype ty =
    TAny
  | TEllipsis
  | TValue val
  | TClass cls
  | TBareGeneric cls
  | TGeneric cls "ty list"
  | TUnion "ty list"
  | TLiteral "val list"
  | TNewType string ty
  | TInitVar ty
  | TInitVarBare

text \<open>
  Exceptions. The first six are the library's own (\<open>DaciteError\<close>); the first four of
  them carry a field path (\<open>DaciteFieldError\<close>), kept as the list of its dotted
  components. The others are Python's built-in exceptions, and \<open>OtherError\<close> is whatever
  else a user hook or a custom constructor raises.
\<close>

datatype exn =
    WrongTypeError "string list" ty val
  | MissingValueError "string list"
  | UnionMatchError "string list" ty val
  | StrictUnionMatchError "string list" "(ty \<times> val) list"
  | UnexpectedDataError "val set"
  | ForwardReferenceError string
  | TypeError
  | ValueError
  | KeyError
  | IndexError
  | NameError string
  | OtherError string

fun is_DaciteFieldError :: "exn \<Rightarrow> bool" where
  "is_DaciteFieldError (WrongTypeError p t v) = True"
| "is_DaciteFieldError (MissingValueError p) = True"
| "is_DaciteFieldError (UnionMatchError p t v) = True"
| "is_DaciteFieldError (StrictUnionMatchError p m) = True"
| "is_DaciteFieldError e = False"

fun is_DaciteError :: "exn \<Rightarrow> bool" where
  "is_DaciteError (UnexpectedDataError ks) = True"
| "is_DaciteError (ForwardReferenceError n) = True"
| "is_DaciteError e = is_DaciteFieldError e"

fun update_path :: "string \<Rightarrow> exn \<Rightarrow> exn" where
  "update_path parent (WrongTypeError p t v) = WrongTypeError (parent # p) t v"
| "update_path parent (MissingValueError p) = MissingValueError (parent # p)"
| "update_path parent (UnionMatchError p t v) = UnionMatchError (parent # p) t v"
| "update_path parent (StrictUnionMatchError p m) = StrictUnionMatchError (parent # p) m"
| "update_path parent e = e"

subsection \<open>Python built-ins on the value universe\<close>

fun type_of :: "val \<Rightarrow> cls" where
  "type_of VNone = CNoneType"
| "type_of (VBool b) = CBool"
| "type_of (VInt i) = CInt"
| "type_of (VStr s) = CStr"
| "type_of (VBytes s) = CBytes"
| "type_of (VList xs) = CList"
| "type_of (VTuple xs) = CTuple"
| "type_of (VSet xs) = CSet"
| "type_of (VFrozenSet xs) = CFrozenSet"
| "type_of (VDict kvs) = CDict"
| "type_of (VObj n fs) = CUser n"

definition issubclass :: "cls \<Rightarrow> cls \<Rightarrow> bool" where
  "issubclass c d \<longleftrightarrow>
     c = d \<or> d = CObject \<or> (c = CBool \<and> d = CInt) \<or> (c = CDict \<and> d = CMapping)
     \<or> (d = CCollection \<and>
         c \<in> {CStr, CBytes, CList, CTuple, CDict, CSet, CFrozenSet, CMapping, CNdarray})"

definition isinstance :: "val \<Rightarrow> cls \<Rightarrow> bool" where
  "isinstance v c = issubclass (type_of v) c"

text \<open>\<open>for item in value\<close>: the items in iteration order, \<open>TypeError\<close> for a value that
  is not iterable. Iterating a dict gives its keys.\<close>

fun py_iter :: "val \<Rightarrow> exn + val list" where
  "py_iter (VList xs) = Inr xs"
| "py_iter (VTuple xs) = Inr xs"
| "py_iter (VSet xs) = Inr xs"
| "py_iter (VFrozenSet xs) = Inr xs"
| "py_iter (VDict kvs) = Inr (map fst kvs)"
| "py_iter (VStr s) = Inr (map (\<lambda>c. VStr [c]) s)"
| "py_iter (VBytes s) = Inr (map (\<lambda>c. VInt (of_char c)) s)"
| "py_iter v = Inl TypeError"

text \<open>\<open>value.items()\<close> of a mapping.\<close>

fun py_dict_items :: "val \<Rightarrow> (val \<times> val) list" where
  "py_dict_items (VDict kvs) = kvs"
| "py_dict_items v = []"

text \<open>\<open>len(value)\<close> of a container.\<close>

definition py_len :: "val \<Rightarrow> nat" where
  "py_len v = (case py_iter v of Inl e \<Rightarrow> 0 | Inr xs \<Rightarrow> length xs)"

text \<open>Python's \<open>==\<close> on values: \<open>True == 1\<close> and \<open>False == 0\<close>; otherwise two values of the
  model are equal when they are the same.\<close>

fun py_eq :: "val \<Rightarrow> val \<Rightarrow> bool" where
  "py_eq (VBool b) (VInt i) = (i = (if b then 1 else 0))"
| "py_eq (VInt i) (VBool b) = (i = (if b then 1 else 0))"
| "py_eq a b = (a = b)"

text \<open>\<open>any(f(x) for x in xs)\<close> and \<open>all(f(x) for x in xs)\<close>: both stop at the first
  deciding element, and an exception raised on the way is the result.\<close>

fun py_any :: "('a \<Rightarrow> exn + bool) \<Rightarrow> 'a list \<Rightarrow> exn + bool" where
  "py_any f [] = Inr False"
| "py_any f (x # xs) =
     (case f x of Inl e \<Rightarrow> Inl e | Inr b \<Rightarrow> if b then Inr True else py_any f xs)"

fun py_all :: "('a \<Rightarrow> exn + bool) \<Rightarrow> 'a list \<Rightarrow> exn + bool" where
  "py_all f [] = Inr True"
| "py_all f (x # xs) =
     (case f x of Inl e \<Rightarrow> Inl e | Inr b \<Rightarrow> if b then py_all f xs else Inr False)"

lemma py_any_cong [fundef_cong]:
  "xs = ys \<Longrightarrow> (\<And>x. x \<in> set ys \<Longrightarrow> f x = g x) \<Longrightarrow> py_any f xs = py_any g ys"
  by (induction ys arbitrary: xs) (auto split: sum.splits)

lemma py_all_cong [fundef_cong]:
  "xs = ys \<Longrightarrow> (\<And>x. x \<in> set ys \<Longrightarrow> f x = g x) \<Longrightarrow> py_all f xs = py_all g ys"
  by (induction ys arbitrary: xs) (auto split: sum.splits)

section \<open>The type predicates of \<open>types.py\<close>\<close>

definition is_generic :: "ty \<Rightarrow> bool" where
  "is_generic t =
     (case t of TBareGeneric c \<Rightarrow> True | TGeneric c args \<Rightarrow> True
      | TUnion ts \<Rightarrow> True | TLiteral vs \<Rightarrow> True | _ \<Rightarrow> False)"

definition is_union :: "ty \<Rightarrow> bool" where
  "is_union t = (case t of TUnion ts \<Rightarrow> True | _ \<Rightarrow> False)"

definition is_literal :: "ty \<Rightarrow> bool" where
  "is_literal t = (case t of TLiteral vs \<Rightarrow> True | _ \<Rightarrow> False)"

definition is_new_type :: "ty \<Rightarrow> bool" where
  "is_new_type t = (case t of TNewType n s \<Rightarrow> True | _ \<Rightarrow> False)"

definition extract_new_type :: "ty \<Rightarrow> ty" where
  "extract_new_type t = (case t of TNewType n s \<Rightarrow> s | _ \<Rightarrow> t)"

definition is_init_var :: "ty \<Rightarrow> bool" where
  "is_init_var t = (case t of TInitVar s \<Rightarrow> True | TInitVarBare \<Rightarrow> True | _ \<Rightarrow> False)"

definition extract_init_var :: "ty \<Rightarrow> ty" where
  "extract_init_var t = (case t of TInitVar s \<Rightarrow> s | _ \<Rightarrow> TAny)"

text \<open>The origin of a generic type, when it is a class (\<open>__origin__\<close> of a union or of a
  literal is no class, and \<open>issubclass\<close> raises \<open>TypeError\<close> on it).\<close>

definition extract_origin_collection :: "ty \<Rightarrow> cls option" where
  "extract_origin_collection t =
     (case t of TBareGeneric c \<Rightarrow> Some c | TGeneric c args \<Rightarrow> Some c | _ \<Rightarrow> None)"

definition skip_generic_conversion :: "cls \<Rightarrow> bool" where
  "skip_generic_conversion origin \<longleftrightarrow> origin = CNdarray"

definition is_generic_collection :: "ty \<Rightarrow> bool" where
  "is_generic_collection t =
     (if \<not> is_generic t then False
      else case extract_origin_collection t of
             None \<Rightarrow> False
           | Some origin \<Rightarrow> issubclass origin CCollection \<and> \<not> skip_generic_conversion origin)"

definition extract_origin_type :: "ty \<Rightarrow> ty option" where
  "extract_origin_type t =
     (let collection_type = extract_origin_collection t in
      if collection_type = Some CList then Some (TBareGeneric CList)
      else if collection_type = Some CDict then Some (TBareGeneric CDict)
      else None)"

text \<open>\<open>extract_generic\<close>: the arguments of a subscripted type, the defaults for an
  unsubscripted one, for one with no arguments, and for a type that has none at all.\<close>

definition extract_generic :: "ty \<Rightarrow> ty list \<Rightarrow> ty list" where
  "extract_generic t defaults =
     (case t of
        TGeneric c args \<Rightarrow> if args = [] then defaults else args
      | TUnion ts \<Rightarrow> if ts = [] then defaults else ts
      | TLiteral vs \<Rightarrow> if vs = [] then defaults else map TValue vs
      | _ \<Rightarrow> defaults)"

definition extract_generic_no_defaults :: "ty \<Rightarrow> ty list option" where
  "extract_generic_no_defaults t =
     (case t of
        TGeneric c args \<Rightarrow> Some args
      | TUnion ts \<Rightarrow> Some ts
      | TLiteral vs \<Rightarrow> Some (map TValue vs)
      | _ \<Rightarrow> None)"

definition is_optional :: "ty \<Rightarrow> bool" where
  "is_optional t \<longleftrightarrow> is_union t \<and> TClass CNoneType \<in> set (extract_generic t [])"

text \<open>\<open>Union[tuple(members)]\<close>: a union of one member is that member.\<close>

definition make_union :: "ty list \<Rightarrow> ty" where
  "make_union members = (case members of [t] \<Rightarrow> t | _ \<Rightarrow> TUnion members)"

definition extract_optional :: "ty \<Rightarrow> exn + ty" where
  "extract_optional optional =
     (let other_members = filter (\<lambda>member. member \<noteq> TClass CNoneType) (extract_generic optional [])
      in if other_members \<noteq> [] then Inr (make_union other_members) else Inl ValueError)"

text \<open>\<open>is_subclass\<close>: \<open>issubclass\<close> with \<open>TypeError\<close> caught. The first argument must end
  up a class, the second be a class or an unsubscripted alias of one.\<close>

definition is_subclass :: "ty \<Rightarrow> ty \<Rightarrow> bool" where
  "is_subclass sub_type base_type =
     (let sub_type = (if is_generic_collection sub_type
                      then (case extract_origin_collection sub_type of
                              Some c \<Rightarrow> TClass c | None \<Rightarrow> sub_type)
                      else sub_type)
      in case (sub_type, base_type) of
           (TClass c, TClass d) \<Rightarrow> issubclass c d
         | (TClass c, TBareGeneric d) \<Rightarrow> issubclass c d
         | _ \<Rightarrow> False)"

definition is_tuple :: "ty \<Rightarrow> bool" where
  "is_tuple t = is_subclass t (TClass CTuple)"

definition is_set :: "cls \<Rightarrow> bool" where
  "is_set c \<longleftrightarrow> c \<in> {CSet, CFrozenSet}"

definition is_type_generic :: "ty \<Rightarrow> bool" where
  "is_type_generic t = (extract_origin_collection t = Some CType)"

section \<open>The runtime value matcher: \<open>is_instance\<close>\<close>

text \<open>The measure of the recursions over declared types: every argument of a generic
  type or member of a union counts, so that dropping one makes the type smaller.\<close>

fun tsize :: "ty \<Rightarrow> nat" where
  "tsize (TGeneric c args) = Suc (sum_list (map (\<lambda>t. Suc (tsize t)) args))"
| "tsize (TUnion ts) = Suc (sum_list (map (\<lambda>t. Suc (tsize t)) ts))"
| "tsize (TNewType n t) = Suc (tsize t)"
| "tsize (TInitVar t) = Suc (tsize t)"
| "tsize (TBareGeneric c) = 1"
| "tsize (TLiteral vs) = 1"
| "tsize TInitVarBare = 1"
| "tsize t = 0"

lemma tsize_member: "x \<in> set xs \<Longrightarrow> tsize x < sum_list (map (\<lambda>t. Suc (tsize t)) xs)"
  by (induction xs) auto

lemma tsize_extract_generic:
  "is_generic t \<Longrightarrow> x \<in> set (extract_generic t d) \<Longrightarrow> x \<in> set d \<or> tsize x < tsize t"
  by (cases t)
     (auto simp: is_generic_def extract_generic_def less_Suc_eq
           dest: tsize_member split: if_splits)

lemma is_union_generic: "is_union t \<Longrightarrow> is_generic t"
  by (cases t) (auto simp: is_union_def is_generic_def)

lemma is_generic_collection_generic: "is_generic_collection t \<Longrightarrow> is_generic t"
  by (auto simp: is_generic_collection_def split: if_splits)

lemma tsize_generic_pos: "is_generic t \<Longrightarrow> 0 < tsize t"
  by (cases t) (auto simp: is_generic_def)

lemma tsize_new_type: "is_new_type t \<Longrightarrow> tsize (extract_new_type t) < tsize t"
  by (cases t) (auto simp: is_new_type_def extract_new_type_def)

lemma tsize_init_var: "is_init_var t \<Longrightarrow> tsize (extract_init_var t) < tsize t"
  by (cases t) (auto simp: is_init_var_def extract_init_var_def)

lemma tsize_union_member:
  "is_union t \<Longrightarrow> x \<in> set (extract_generic t []) \<Longrightarrow> tsize x < tsize t"
  using tsize_extract_generic [of t x "[]"] by (auto dest: is_union_generic)

lemma tsize_collection_arg:
  "is_generic_collection t \<Longrightarrow> x \<in> set (extract_generic t d) \<Longrightarrow> set d \<subseteq> {TAny}
   \<Longrightarrow> tsize x < tsize t"
  using tsize_extract_generic [of t x d] tsize_generic_pos [of t]
  by (auto dest!: is_generic_collection_generic)

function is_instance :: "val \<Rightarrow> ty \<Rightarrow> exn + bool" where
  "is_instance value type' =
    (if type' = TAny then Inr True
     else if is_union type' then
       py_any (\<lambda>t. is_instance value t) (extract_generic type' [])
     else if is_generic_collection type' then
       (case extract_origin_collection type' of
          None \<Rightarrow> Inr False
        | Some origin \<Rightarrow>
            if \<not> isinstance value origin then Inr False
            else if extract_generic_no_defaults type' = None then Inr True
            else if isinstance value CTuple \<and> is_tuple type' then
              (let tuple_types = extract_generic type' [] in
               if length tuple_types = 1 \<and> tuple_types ! 0 = TValue (VTuple [])
               then Inr (py_len value = 0)
               else if length tuple_types = 2 \<and> tuple_types ! 1 = TEllipsis
               then (case py_iter value of
                       Inl e \<Rightarrow> Inl e
                     | Inr items \<Rightarrow> py_all (\<lambda>item. is_instance item (tuple_types ! 0)) items)
               else if length tuple_types \<noteq> py_len value then Inr False
               else (case py_iter value of
                       Inl e \<Rightarrow> Inl e
                     | Inr items \<Rightarrow>
                         py_all (\<lambda>(item, item_type). is_instance item item_type)
                           (zip items tuple_types)))
            else if isinstance value CMapping then
              (case extract_generic type' [TAny, TAny] of
                 [key_type, val_type] \<Rightarrow>
                   py_all (\<lambda>(key, val).
                             case is_instance key key_type of
                               Inl e \<Rightarrow> Inl e
                             | Inr b \<Rightarrow> if \<not> b then Inr False else is_instance val val_type)
                     (py_dict_items value)
               | _ \<Rightarrow> Inl ValueError)
            else
              (case py_iter value of
                 Inl e \<Rightarrow> Inl e
               | Inr items \<Rightarrow>
                   (case extract_generic type' [TAny] of
                      [] \<Rightarrow> if items = [] then Inr True else Inl IndexError
                    | item_type # rest \<Rightarrow> py_all (\<lambda>item. is_instance item item_type) items)))
     else if is_new_type type' then is_instance value (extract_new_type type')
     else if is_literal type' then
       Inr (list_ex (\<lambda>a. case a of TValue x \<Rightarrow> py_eq value x | _ \<Rightarrow> False)
              (extract_generic type' []))
     else if is_init_var type' then is_instance value (extract_init_var type')
     else if is_type_generic type' then
       (case extract_generic type' [] of [] \<Rightarrow> Inl IndexError | t # rest \<Rightarrow> Inr False)
     else if is_generic type' then
       (case extract_origin_collection type' of
          None \<Rightarrow> Inr False
        | Some origin \<Rightarrow> Inr (isinstance value origin))
     else
       (case type' of
          TClass c \<Rightarrow>
            if (isinstance value CInt \<or> isinstance value CFloat) \<and> c \<in> {CFloat, CComplex}
            then Inr True
            else Inr (isinstance value c)
        | _ \<Rightarrow> Inr False))"
  by pat_completeness auto
termination
proof (relation "measure (\<lambda>(v, t). tsize t)", goal_cases)
  case 1
  show ?case by simp
next
  case 2
  then show ?case by (simp add: tsize_union_member)
next
  case 3
  show ?case
    unfolding in_measure prod.case
    by (rule tsize_collection_arg [where d = "[]"]) (use 3 in auto)
next
  case 4
  show ?case
    unfolding in_measure prod.case
    by (rule tsize_collection_arg [where d = "[]"]) (use 4 in \<open>auto dest: set_zip_rightD\<close>)
next
  case 5
  show ?case
    unfolding in_measure prod.case
    by (rule tsize_collection_arg [where d = "[TAny, TAny]"]) (use 5 in auto)
next
  case 6
  show ?case
    unfolding in_measure prod.case
    by (rule tsize_collection_arg [where d = "[TAny, TAny]"]) (use 6 in auto)
next
  case 7
  show ?case
    unfolding in_measure prod.case
    by (rule tsize_collection_arg [where d = "[TAny]"]) (use 7 in auto)
next
  case 8
  then show ?case by (simp add: tsize_new_type)
next
  case 9
  then show ?case by (simp add: tsize_init_var)
qed

declare is_instance.simps [simp del]

lemmas type_pred_defs =
  is_generic_def is_union_def is_literal_def is_new_type_def is_init_var_def
  extract_origin_collection_def skip_generic_conversion_def is_generic_collection_def
  extract_generic_def extract_generic_no_defaults_def is_optional_def is_subclass_def
  is_tuple_def is_set_def is_type_generic_def issubclass_def isinstance_def
  extract_new_type_def extract_init_var_def extract_origin_type_def

section \<open>Configuration, data classes and the runtime\<close>

type_synonym hook = "val \<Rightarrow> exn + val"

text \<open>
  \<open>Config\<close> of \<open>config.py\<close>. \<open>type_hooks\<close> is the mapping's lookup: \<open>type_hooks cfg t\<close> is
  \<open>Some h\<close> when \<open>t in type_hooks\<close> holds and \<open>type_hooks[t]\<close> is \<open>h\<close>. A hook may raise.
  \<open>forward_references\<close> is only handed to \<open>typing.get_type_hints\<close>, whose outcome is part
  of the data class below.
\<close>

record config =
  type_hooks :: "ty \<Rightarrow> hook option"
  cast :: "ty list"
  check_types :: bool
  strict :: bool
  strict_unions_match :: bool
  allow_missing_fields_as_none :: bool

text \<open>The default \<open>Config()\<close>.\<close>

definition Config :: config where
  "Config = \<lparr> type_hooks = (\<lambda>t. None), cast = [], check_types = True, strict = False,
              strict_unions_match = False, allow_missing_fields_as_none = False \<rparr>"

text \<open>
  A field of a data class as \<open>dataclasses.fields\<close> gives it: its name, whether it is a
  parameter of \<open>__init__\<close>, and its default (\<open>None\<close> for \<open>MISSING\<close>; the result of the
  default factory otherwise). A data class has its fields, the outcome of
  \<open>typing.get_type_hints\<close> on it (the resolved annotations by name, or the message of the
  \<open>NameError\<close> for a forward reference that does not resolve), its own \<open>from_dict\<close> class
  method if it has one, and whether its instances are hashable.
\<close>

record field =
  f_name :: string
  f_init :: bool
  f_default :: "val option"

record dataclass =
  dc_name :: string
  dc_fields :: "field list"
  dc_type_hints :: "string + (string \<times> ty) list"
  dc_from_dict :: "(config \<Rightarrow> val \<Rightarrow> exn + val) option"
  dc_hashable :: bool

text \<open>
  What the code takes from its surroundings: the data classes by name, and Python's
  constructor call \<open>c(value)\<close> for the classes the model does not interpret itself
  (\<open>int\<close>, \<open>str\<close>, user classes, ...).
\<close>

record env =
  classes :: "string \<Rightarrow> dataclass option"
  construct :: "cls \<Rightarrow> val \<Rightarrow> exn + val"

definition is_dataclass :: "env \<Rightarrow> ty \<Rightarrow> bool" where
  "is_dataclass rt t = (case t of TClass (CUser n) \<Rightarrow> classes rt n \<noteq> None | _ \<Rightarrow> False)"

subsection \<open>Building containers\<close>

fun py_hashable :: "env \<Rightarrow> val \<Rightarrow> bool" where
  "py_hashable rt (VList xs) = False"
| "py_hashable rt (VSet xs) = False"
| "py_hashable rt (VDict kvs) = False"
| "py_hashable rt (VTuple xs) = list_all (py_hashable rt) xs"
| "py_hashable rt (VObj n fs) = (case classes rt n of None \<Rightarrow> True | Some dc \<Rightarrow> dc_hashable dc)"
| "py_hashable rt v = True"

text \<open>Adding to a set and storing into a dict: \<open>TypeError\<close> for an unhashable element or
  key; an element that is already there is dropped, a key that is already there keeps its
  place and gets the new value.\<close>

fun set_add :: "env \<Rightarrow> val list \<Rightarrow> val \<Rightarrow> exn + val list" where
  "set_add rt xs x =
     (if \<not> py_hashable rt x then Inl TypeError
      else if list_ex (\<lambda>y. py_eq y x) xs then Inr xs else Inr (xs @ [x]))"

fun dict_store :: "(val \<times> val) list \<Rightarrow> val \<Rightarrow> val \<Rightarrow> (val \<times> val) list" where
  "dict_store [] k v = [(k, v)]"
| "dict_store ((k', v') # kvs) k v =
     (if py_eq k' k then (k', v) # kvs else (k', v') # dict_store kvs k v)"

definition dict_setitem :: "env \<Rightarrow> (val \<times> val) list \<Rightarrow> val \<Rightarrow> val \<Rightarrow> exn + (val \<times> val) list" where
  "dict_setitem rt kvs k v = (if \<not> py_hashable rt k then Inl TypeError else Inr (dict_store kvs k v))"

fun set_of_items :: "env \<Rightarrow> val list \<Rightarrow> val list \<Rightarrow> exn + val list" where
  "set_of_items rt acc [] = Inr acc"
| "set_of_items rt acc (x # xs) =
     (case set_add rt acc x of Inl e \<Rightarrow> Inl e | Inr acc' \<Rightarrow> set_of_items rt acc' xs)"

fun dict_of_pairs :: "env \<Rightarrow> (val \<times> val) list \<Rightarrow> val list \<Rightarrow> exn + (val \<times> val) list" where
  "dict_of_pairs rt acc [] = Inr acc"
| "dict_of_pairs rt acc (p # ps) =
     (case py_iter p of
        Inl e \<Rightarrow> Inl e
      | Inr [k, v] \<Rightarrow>
          (case dict_setitem rt acc k v of Inl e \<Rightarrow> Inl e | Inr acc' \<Rightarrow> dict_of_pairs rt acc' ps)
      | Inr kv \<Rightarrow> Inl ValueError)"

text \<open>\<open>c(value)\<close> for a class \<open>c\<close> and one argument.\<close>

definition py_call :: "env \<Rightarrow> cls \<Rightarrow> val \<Rightarrow> exn + val" where
  "py_call rt c v =
     (case c of
        CList \<Rightarrow> (case py_iter v of Inl e \<Rightarrow> Inl e | Inr xs \<Rightarrow> Inr (VList xs))
      | CTuple \<Rightarrow> (case py_iter v of Inl e \<Rightarrow> Inl e | Inr xs \<Rightarrow> Inr (VTuple xs))
      | CSet \<Rightarrow>
          (case py_iter v of
             Inl e \<Rightarrow> Inl e
           | Inr xs \<Rightarrow> (case set_of_items rt [] xs of Inl e \<Rightarrow> Inl e | Inr ys \<Rightarrow> Inr (VSet ys)))
      | CFrozenSet \<Rightarrow>
          (case py_iter v of
             Inl e \<Rightarrow> Inl e
           | Inr xs \<Rightarrow>
               (case set_of_items rt [] xs of Inl e \<Rightarrow> Inl e | Inr ys \<Rightarrow> Inr (VFrozenSet ys)))
      | CDict \<Rightarrow>
          (case v of
             VDict kvs \<Rightarrow> Inr (VDict kvs)
           | _ \<Rightarrow>
               (case py_iter v of
                  Inl e \<Rightarrow> Inl e
                | Inr ps \<Rightarrow>
                    (case dict_of_pairs rt [] ps of Inl e \<Rightarrow> Inl e | Inr kvs \<Rightarrow> Inr (VDict kvs))))
      | CMapping \<Rightarrow> Inl TypeError
      | CCollection \<Rightarrow> Inl TypeError
      | _ \<Rightarrow> construct rt c v)"

text \<open>
  \<open>c(f(x) for x in xs)\<close>: the constructor draws the items one by one, so that \<open>f\<close> runs on
  an item only after the items before it were taken in. For a class the model does not
  interpret, the constructor gets the list of the items.
\<close>

fun py_collect_set :: "env \<Rightarrow> ('a \<Rightarrow> exn + val) \<Rightarrow> val list \<Rightarrow> 'a list \<Rightarrow> exn + val list" where
  "py_collect_set rt f acc [] = Inr acc"
| "py_collect_set rt f acc (x # xs) =
     (case f x of
        Inl e \<Rightarrow> Inl e
      | Inr y \<Rightarrow>
          (case set_add rt acc y of Inl e \<Rightarrow> Inl e | Inr acc' \<Rightarrow> py_collect_set rt f acc' xs))"

fun py_collect_list :: "('a \<Rightarrow> exn + val) \<Rightarrow> 'a list \<Rightarrow> exn + val list" where
  "py_collect_list f [] = Inr []"
| "py_collect_list f (x # xs) =
     (case f x of
        Inl e \<Rightarrow> Inl e
      | Inr y \<Rightarrow> (case py_collect_list f xs of Inl e \<Rightarrow> Inl e | Inr ys \<Rightarrow> Inr (y # ys)))"

definition py_collect :: "env \<Rightarrow> cls \<Rightarrow> ('a \<Rightarrow> exn + val) \<Rightarrow> 'a list \<Rightarrow> exn + val" where
  "py_collect rt c f xs =
     (if c = CSet then
        (case py_collect_set rt f [] xs of Inl e \<Rightarrow> Inl e | Inr ys \<Rightarrow> Inr (VSet ys))
      else if c = CFrozenSet then
        (case py_collect_set rt f [] xs of Inl e \<Rightarrow> Inl e | Inr ys \<Rightarrow> Inr (VFrozenSet ys))
      else
        (case py_collect_list f xs of Inl e \<Rightarrow> Inl e | Inr ys \<Rightarrow> py_call rt c (VList ys)))"

text \<open>\<open>{f(k): g(v) for k, v in items}\<close>: key first, then value, then the store.\<close>

fun py_dict_comp ::
  "env \<Rightarrow> (val \<Rightarrow> exn + val) \<Rightarrow> (val \<Rightarrow> exn + val) \<Rightarrow> (val \<times> val) list \<Rightarrow> (val \<times> val) list
   \<Rightarrow> exn + (val \<times> val) list" where
  "py_dict_comp rt f g acc [] = Inr acc"
| "py_dict_comp rt f g acc ((k, v) # kvs) =
     (case f k of
        Inl e \<Rightarrow> Inl e
      | Inr k' \<Rightarrow>
          (case g v of
             Inl e \<Rightarrow> Inl e
           | Inr v' \<Rightarrow>
               (case dict_setitem rt acc k' v' of
                  Inl e \<Rightarrow> Inl e
                | Inr acc' \<Rightarrow> py_dict_comp rt f g acc' kvs)))"

lemma py_collect_set_cong [fundef_cong]:
  "xs = ys \<Longrightarrow> (\<And>x. x \<in> set ys \<Longrightarrow> f x = g x)
   \<Longrightarrow> py_collect_set rt f acc xs = py_collect_set rt g acc ys"
  by (induction ys arbitrary: xs acc) (auto split: sum.splits)

lemma py_collect_list_cong [fundef_cong]:
  "xs = ys \<Longrightarrow> (\<And>x. x \<in> set ys \<Longrightarrow> f x = g x) \<Longrightarrow> py_collect_list f xs = py_collect_list g ys"
  by (induction ys arbitrary: xs) (auto split: sum.splits)

lemma py_collect_cong [fundef_cong]:
  assumes "xs = ys" and "\<And>x. x \<in> set ys \<Longrightarrow> f x = g x"
  shows "py_collect rt c f xs = py_collect rt c g ys"
proof -
  have "py_collect_set rt f [] xs = py_collect_set rt g [] ys"
    using assms by (rule py_collect_set_cong)
  moreover have "py_collect_list f xs = py_collect_list g ys"
    using assms by (rule py_collect_list_cong)
  ultimately show ?thesis by (simp add: py_collect_def)
qed

lemma py_dict_comp_cong [fundef_cong]:
  "kvs = kvs' \<Longrightarrow> (\<And>k v. (k, v) \<in> set kvs' \<Longrightarrow> f k = f' k)
   \<Longrightarrow> (\<And>k v. (k, v) \<in> set kvs' \<Longrightarrow> g v = g' v)
   \<Longrightarrow> py_dict_comp rt f g acc kvs = py_dict_comp rt f' g' acc kvs'"
proof (induction kvs' arbitrary: kvs acc)
  case Nil
  then show ?case by simp
next
  case (Cons p kvs')
  obtain k v where p: "p = (k, v)" by (cases p)
  have fk: "f k = f' k" and gv: "g v = g' v"
    using Cons.prems(2) [of k v] Cons.prems(3) [of k v] p by auto
  have rest: "py_dict_comp rt f g a kvs' = py_dict_comp rt f' g' a kvs'" for a
    using Cons.prems by (intro Cons.IH) auto
  show ?case
    using Cons.prems(1) by (simp add: p fk gv rest split: sum.splits)
qed

section \<open>The value transformer: \<open>transform_value\<close>\<close>

definition apply_hook :: "hook option \<Rightarrow> val \<Rightarrow> exn + val" where
  "apply_hook h value = (case h of None \<Rightarrow> Inr value | Some f \<Rightarrow> f value)"

text \<open>The generic hooks: the one registered for \<open>Any\<close>, then the one registered for the
  origin (\<open>List\<close> or \<open>Dict\<close>) of a generic collection.\<close>

definition generic_hooks :: "(ty \<Rightarrow> hook option) \<Rightarrow> ty \<Rightarrow> val \<Rightarrow> exn + val" where
  "generic_hooks hooks target_type value =
     (case apply_hook (hooks TAny) value of
        Inl e \<Rightarrow> Inl e
      | Inr value \<Rightarrow>
          if is_generic_collection target_type then
            (case extract_origin_type target_type of
               None \<Rightarrow> Inr value
             | Some collection_type \<Rightarrow> apply_hook (hooks collection_type) value)
          else Inr value)"

text \<open>The loop over the cast list. It stops at the first cast type that the target type
  is a subclass of; for a set-like target it makes \<open>transform_value\<close> return
  \<open>list(value)\<close> at once (\<open>Returned\<close>), otherwise the value goes on (\<open>Continue\<close>).\<close>

datatype cast_result = Returned val | Continue val

fun cast_loop :: "env \<Rightarrow> ty \<Rightarrow> val \<Rightarrow> ty list \<Rightarrow> exn + cast_result" where
  "cast_loop rt target_type value [] = Inr (Continue value)"
| "cast_loop rt target_type value (cast_type # rest) =
     (if is_subclass target_type cast_type then
        (if is_generic_collection target_type then
           (case extract_origin_collection target_type of
              None \<Rightarrow> Inl TypeError
            | Some origin_collection \<Rightarrow>
                if is_set origin_collection then
                  (case py_call rt CList value of Inl e \<Rightarrow> Inl e | Inr v \<Rightarrow> Inr (Returned v))
                else
                  (case py_call rt origin_collection value of
                     Inl e \<Rightarrow> Inl e
                   | Inr v \<Rightarrow> Inr (Continue v)))
         else
           (case target_type of
              TClass c \<Rightarrow> (case py_call rt c value of Inl e \<Rightarrow> Inl e | Inr v \<Rightarrow> Inr (Continue v))
            | _ \<Rightarrow> Inl TypeError))
      else cast_loop rt target_type value rest)"

lemma sum_list_filter_less:
  "x \<in> set xs \<Longrightarrow> \<not> P x
   \<Longrightarrow> sum_list (map (\<lambda>t. Suc (f t)) (filter P xs)) < sum_list (map (\<lambda>t. Suc (f t)) xs)"
proof (induction xs)
  case Nil
  then show ?case by simp
next
  case (Cons y ys)
  have le: "sum_list (map (\<lambda>t. Suc (f t)) (filter P ys)) \<le> sum_list (map (\<lambda>t. Suc (f t)) ys)"
    by (induction ys) auto
  show ?case
  proof (cases "x = y")
    case True
    with Cons.prems le show ?thesis by simp
  next
    case False
    with Cons have "sum_list (map (\<lambda>t. Suc (f t)) (filter P ys)) < sum_list (map (\<lambda>t. Suc (f t)) ys)"
      by simp
    then show ?thesis by simp
  qed
qed

lemma tsize_make_union: "tsize (make_union ts) \<le> Suc (sum_list (map (\<lambda>t. Suc (tsize t)) ts))"
  by (cases ts rule: list.exhaust [case_product list.exhaust])
     (auto simp: make_union_def split: list.splits)

lemma tsize_extract_optional:
  assumes "is_optional t" and "extract_optional t = Inr t'"
  shows "tsize t' < tsize t"
proof -
  from assms(1) obtain ts where t: "t = TUnion ts" and none: "TClass CNoneType \<in> set ts"
    by (cases t) (auto simp: is_optional_def is_union_def extract_generic_def split: if_splits)
  let ?others = "filter (\<lambda>member. member \<noteq> TClass CNoneType) ts"
  from none have ne: "ts \<noteq> []" by auto
  from assms(2) t ne have t': "t' = make_union ?others"
    by (auto simp: extract_optional_def extract_generic_def Let_def split: if_splits)
  have "sum_list (map (\<lambda>t. Suc (tsize t)) ?others) < sum_list (map (\<lambda>t. Suc (tsize t)) ts)"
    using none by (intro sum_list_filter_less) auto
  with tsize_make_union [of ?others] show ?thesis by (simp add: t t')
qed

lemma tsize_key_cls:
  "extract_generic t [TAny, TAny] = [key_cls, item_cls] \<Longrightarrow> is_generic_collection t
   \<Longrightarrow> Suc (2 * tsize key_cls) < 2 * tsize t"
  using tsize_collection_arg [of t key_cls "[TAny, TAny]"] by simp

lemma tsize_dict_item_cls:
  "extract_generic t [TAny, TAny] = [key_cls, item_cls] \<Longrightarrow> is_generic_collection t
   \<Longrightarrow> Suc (2 * tsize item_cls) < 2 * tsize t"
  using tsize_collection_arg [of t item_cls "[TAny, TAny]"] by simp

lemma tsize_item_cls:
  "extract_generic t [TAny] = item_cls # rest \<Longrightarrow> is_generic_collection t
   \<Longrightarrow> Suc (2 * tsize item_cls) < 2 * tsize t"
  using tsize_collection_arg [of t item_cls "[TAny]"] by simp

lemma tsize_peeled:
  "is_optional t \<Longrightarrow> extract_optional t = Inr t' \<Longrightarrow> Suc (2 * tsize t') < 2 * tsize t"
  using tsize_extract_optional [of t t'] by simp

function transform_value :: "env \<Rightarrow> (ty \<Rightarrow> hook option) \<Rightarrow> ty list \<Rightarrow> ty \<Rightarrow> val \<Rightarrow> exn + val"
  and peel_and_recurse :: "env \<Rightarrow> (ty \<Rightarrow> hook option) \<Rightarrow> ty list \<Rightarrow> ty \<Rightarrow> val \<Rightarrow> exn + val"
where
  "transform_value rt hooks cast_list target_type value =
     (case generic_hooks hooks target_type value of
        Inl e \<Rightarrow> Inl e
      | Inr value \<Rightarrow>
          (case hooks target_type of
             Some h \<Rightarrow>
               (case h value of
                  Inl e \<Rightarrow> Inl e
                | Inr value \<Rightarrow> peel_and_recurse rt hooks cast_list target_type value)
           | None \<Rightarrow>
               (case cast_loop rt target_type value cast_list of
                  Inl e \<Rightarrow> Inl e
                | Inr (Returned v) \<Rightarrow> Inr v
                | Inr (Continue value) \<Rightarrow> peel_and_recurse rt hooks cast_list target_type value)))"
| "peel_and_recurse rt hooks cast_list target_type value =
     (if is_optional target_type then
        (if value = VNone then Inr VNone
         else case extract_optional target_type of
                Inl e \<Rightarrow> Inl e
              | Inr target_type' \<Rightarrow> transform_value rt hooks cast_list target_type' value)
      else if is_generic_collection target_type
              \<and> (case extract_origin_collection target_type of
                    None \<Rightarrow> False
                  | Some origin \<Rightarrow> isinstance value origin) then
        (let collection_cls = type_of value in
         if issubclass collection_cls CDict then
           (case extract_generic target_type [TAny, TAny] of
              [key_cls, item_cls] \<Rightarrow>
                (case py_dict_comp rt
                        (\<lambda>key. transform_value rt hooks cast_list key_cls key)
                        (\<lambda>item. transform_value rt hooks cast_list item_cls item)
                        [] (py_dict_items value) of
                   Inl e \<Rightarrow> Inl e
                 | Inr kvs \<Rightarrow> py_call rt collection_cls (VDict kvs))
            | _ \<Rightarrow> Inl ValueError)
         else
           (case extract_generic target_type [TAny] of
              [] \<Rightarrow> Inl IndexError
            | item_cls # rest \<Rightarrow>
                (case py_iter value of
                   Inl e \<Rightarrow> Inl e
                 | Inr items \<Rightarrow>
                     py_collect rt collection_cls
                       (\<lambda>item. transform_value rt hooks cast_list item_cls item) items)))
      else Inr value)"
  by pat_completeness auto
termination
proof (relation "measure (\<lambda>x. case x of
                   Inl (rt, hooks, cast_list, t, v) \<Rightarrow> 2 * tsize t + 1
                 | Inr (rt, hooks, cast_list, t, v) \<Rightarrow> 2 * tsize t)", goal_cases)
  case 1
  show ?case by simp
next
  case 2
  show ?case by simp
next
  case 3
  show ?case by simp
next
  case 4
  then show ?case by (auto intro: tsize_peeled)
next
  case 5
  then show ?case by (auto intro: tsize_key_cls)
next
  case 6
  then show ?case by (auto intro: tsize_dict_item_cls)
next
  case 7
  then show ?case by (auto intro: tsize_item_cls)
qed

declare transform_value.simps [simp del] peel_and_recurse.simps [simp del]

section \<open>The value builder and the record assembler of \<open>core.py\<close>\<close>

text \<open>
  The functions of \<open>core.py\<close> call each other through the declared types and through the
  data, and a hook may hand back data of any size, so no measure bounds the recursion:
  \<open>_build_value\<close> takes the number of nested calls it may still make, and \<open>None\<close> is the
  result of a run that needs more.
\<close>

text \<open>Modelled from the spec: the alias \<open>Data\<close> of \<open>dacite.data\<close>, the map-like raw value
  with string keys that a record is built from, \<open>Mapping[str, Any]\<close>.\<close>

definition Data :: ty where
  "Data = TGeneric CMapping [TClass CStr, TAny]"

text \<open>Modelled from the spec: \<open>get_fields\<close> of \<open>dacite.dataclasses\<close>, the declared fields
  of the record type in declaration order.\<close>

definition get_fields :: "dataclass \<Rightarrow> field list" where
  "get_fields dc = dc_fields dc"

text \<open>Modelled from the spec: \<open>get_default_value_for_field\<close> of \<open>dacite.dataclasses\<close>. It
  supplies the declared default; without one, \<open>allow_missing_fields_as_none\<close> permits
  \<open>None\<close> when the declared type accepts null; otherwise it raises
  \<open>DefaultValueNotFoundError\<close>, which is \<open>None\<close> here.\<close>

definition get_default_value_for_field :: "field \<Rightarrow> ty \<Rightarrow> bool \<Rightarrow> val option" where
  "get_default_value_for_field fld field_type missing_as_none =
     (case f_default fld of
        Some d \<Rightarrow> Some d
      | None \<Rightarrow> if missing_as_none \<and> is_optional field_type then Some VNone else None)"

fun alist_store :: "('k \<times> 'v) list \<Rightarrow> 'k \<Rightarrow> 'v \<Rightarrow> ('k \<times> 'v) list" where
  "alist_store [] k v = [(k, v)]"
| "alist_store ((k', v') # kvs) k v =
     (if k' = k then (k', v) # kvs else (k', v') # alist_store kvs k v)"

text \<open>Modelled from the spec: \<open>create_instance\<close> of \<open>dacite.dataclasses\<close>. The record is
  constructed from the values of the fields that take part in the constructor, and the
  other values are set on it afterwards.\<close>

definition create_instance :: "dataclass \<Rightarrow> (string \<times> val) list \<Rightarrow> (string \<times> val) list \<Rightarrow> val" where
  "create_instance dc init_values post_init_values =
     VObj (dc_name dc) (foldl (\<lambda>fs (k, v). alist_store fs k v) init_values post_init_values)"

text \<open>\<open>get_data_class_hints\<close>: the type hints, with \<open>InitVar\<close> wrappers taken off.\<close>

definition get_data_class_hints :: "dataclass \<Rightarrow> exn + (string \<times> ty) list" where
  "get_data_class_hints dc =
     (case dc_type_hints dc of
        Inl msg \<Rightarrow> Inl (NameError msg)
      | Inr type_hints \<Rightarrow>
          Inr (map (\<lambda>(attr, type_hint).
                      if is_init_var type_hint then (attr, extract_init_var type_hint)
                      else (attr, type_hint)) type_hints))"

text \<open>\<open>data[key]\<close> and \<open>key in data\<close> for the items of a dict.\<close>

fun dict_get :: "(val \<times> val) list \<Rightarrow> val \<Rightarrow> val option" where
  "dict_get [] k = None"
| "dict_get ((k', v) # kvs) k = (if py_eq k' k then Some v else dict_get kvs k)"

text \<open>\<open>itertools.zip_longest\<close> with its fill value \<open>None\<close>: a missing item is \<open>None\<close>, and
  so is a missing type.\<close>

fun zip_longest :: "val list \<Rightarrow> ty list \<Rightarrow> (val \<times> ty) list" where
  "zip_longest [] [] = []"
| "zip_longest (x # xs) [] = (x, TValue VNone) # zip_longest xs []"
| "zip_longest [] (t # ts) = (VNone, t) # zip_longest [] ts"
| "zip_longest (x # xs) (t # ts) = (x, t) # zip_longest xs ts"

text \<open>\<open>except DaciteFieldError as error: error.update_path(field.name); raise\<close>\<close>

definition field_error :: "string \<Rightarrow> exn \<Rightarrow> exn" where
  "field_error name e = (if is_DaciteFieldError e then update_path name e else e)"

type_synonym 'a result = "(exn + 'a) option"

function (sequential)
    build_value :: "nat \<Rightarrow> env \<Rightarrow> config \<Rightarrow> ty \<Rightarrow> val \<Rightarrow> val result"
and build_value_for_union :: "nat \<Rightarrow> env \<Rightarrow> config \<Rightarrow> ty \<Rightarrow> val \<Rightarrow> val result"
and union_loop ::
      "nat \<Rightarrow> env \<Rightarrow> config \<Rightarrow> ty \<Rightarrow> ty list \<Rightarrow> val \<Rightarrow> (ty \<times> val) list \<Rightarrow> val result"
and build_value_for_collection :: "nat \<Rightarrow> env \<Rightarrow> config \<Rightarrow> ty \<Rightarrow> val \<Rightarrow> val result"
and build_items :: "nat \<Rightarrow> env \<Rightarrow> config \<Rightarrow> ty \<Rightarrow> val list \<Rightarrow> (val list) result"
and build_set_items ::
      "nat \<Rightarrow> env \<Rightarrow> config \<Rightarrow> ty list \<Rightarrow> val list \<Rightarrow> val list \<Rightarrow> (val list) result"
and build_pairs :: "nat \<Rightarrow> env \<Rightarrow> config \<Rightarrow> (val \<times> ty) list \<Rightarrow> (val list) result"
and build_dict_items ::
      "nat \<Rightarrow> env \<Rightarrow> config \<Rightarrow> ty \<Rightarrow> (val \<times> val) list \<Rightarrow> (val \<times> val) list
       \<Rightarrow> ((val \<times> val) list) result"
and from_dict :: "nat \<Rightarrow> env \<Rightarrow> config \<Rightarrow> dataclass \<Rightarrow> (val \<times> val) list \<Rightarrow> val result"
and from_dict_fields ::
      "nat \<Rightarrow> env \<Rightarrow> config \<Rightarrow> (string \<times> ty) list \<Rightarrow> (val \<times> val) list \<Rightarrow> field list
       \<Rightarrow> (string \<times> val) list \<Rightarrow> (string \<times> val) list
       \<Rightarrow> ((string \<times> val) list \<times> (string \<times> val) list) result"
where
  "build_value 0 rt cfg type' data = None"
| "build_value (Suc n) rt cfg type' data =
     (let type' = (if is_init_var type' then extract_init_var type' else type') in
      if is_union type' then build_value_for_union n rt cfg type' data
      else if is_generic_collection type' then
        (case extract_origin_collection type' of
           None \<Rightarrow> Some (Inr data)
         | Some origin \<Rightarrow>
             (case is_instance data (TClass origin) of
                Inl e \<Rightarrow> Some (Inl e)
              | Inr True \<Rightarrow> build_value_for_collection n rt cfg type' data
              | Inr False \<Rightarrow>
                  if is_set origin then
                    (case py_iter data of
                       Inl e \<Rightarrow> Some (Inl e)
                     | Inr items \<Rightarrow>
                         (case build_set_items n rt cfg (extract_generic type' []) [] items of
                            None \<Rightarrow> None
                          | Some (Inl e) \<Rightarrow> Some (Inl e)
                          | Some (Inr xs) \<Rightarrow>
                              Some (Inr (if origin = CSet then VSet xs else VFrozenSet xs))))
                  else Some (Inr data)))
      else if is_dataclass rt type' \<and> is_instance data Data = Inr True then
        (case type' of
           TClass (CUser name) \<Rightarrow>
             (case classes rt name of
                None \<Rightarrow> Some (Inr data)
              | Some dc \<Rightarrow>
                  (case dc_from_dict dc of
                     Some custom \<Rightarrow> Some (custom cfg data)
                   | None \<Rightarrow> from_dict n rt cfg dc (py_dict_items data)))
         | _ \<Rightarrow> Some (Inr data))
      else Some (Inr data))"

| "build_value_for_union n rt cfg union' data =
     (let types = extract_generic union' [] in
      if is_optional union' \<and> length types = 2
      then build_value n rt cfg (types ! 0) data
      else union_loop n rt cfg union' types data [])"

| "union_loop n rt cfg union' [] data union_matches =
     (if strict_unions_match cfg then
        (if length union_matches > 1
         then Some (Inl (StrictUnionMatchError [] union_matches))
         else (case union_matches of
                 [] \<Rightarrow> Some (Inl KeyError)
               | m # ms \<Rightarrow> Some (Inr (snd (last union_matches)))))
      else if \<not> check_types cfg then Some (Inr data)
      else Some (Inl (UnionMatchError [] union' data)))"
| "union_loop n rt cfg union' (inner_type # rest) data union_matches =
     (case transform_value rt (type_hooks cfg) (cast cfg) inner_type data of
        Inl e \<Rightarrow> union_loop n rt cfg union' rest data union_matches
      | Inr data \<Rightarrow>
          (case build_value n rt cfg inner_type data of
             None \<Rightarrow> None
           | Some (Inl e) \<Rightarrow>
               if is_DaciteError e then union_loop n rt cfg union' rest data union_matches
               else Some (Inl e)
           | Some (Inr value) \<Rightarrow>
               (case is_instance value inner_type of
                  Inl e \<Rightarrow>
                    if is_DaciteError e then union_loop n rt cfg union' rest data union_matches
                    else Some (Inl e)
                | Inr True \<Rightarrow>
                    if strict_unions_match cfg
                    then union_loop n rt cfg union' rest data
                           (alist_store union_matches inner_type value)
                    else Some (Inr value)
                | Inr False \<Rightarrow> union_loop n rt cfg union' rest data union_matches)))"

| "build_value_for_collection n rt cfg collection data =
     (let data_type = type_of data in
      case is_instance data (TBareGeneric CMapping) of
        Inl e \<Rightarrow> Some (Inl e)
      | Inr True \<Rightarrow>
          (case extract_generic collection [TAny, TAny] of
             key_type # item_type # rest \<Rightarrow>
               (case build_dict_items n rt cfg item_type [] (py_dict_items data) of
                  None \<Rightarrow> None
                | Some (Inl e) \<Rightarrow> Some (Inl e)
                | Some (Inr kvs) \<Rightarrow> Some (py_call rt data_type (VDict kvs)))
           | _ \<Rightarrow> Some (Inl IndexError))
      | Inr False \<Rightarrow>
          (case is_instance data (TClass CTuple) of
             Inl e \<Rightarrow> Some (Inl e)
           | Inr True \<Rightarrow>
               (case py_iter data of
                  Inl e \<Rightarrow> Some (Inl e)
                | Inr items \<Rightarrow>
                    if items = [] then Some (py_call rt data_type (VList []))
                    else
                      (let types = extract_generic collection [] in
                       if length types = 2 \<and> types ! 1 = TEllipsis then
                         (case build_items n rt cfg (types ! 0) items of
                            None \<Rightarrow> None
                          | Some (Inl e) \<Rightarrow> Some (Inl e)
                          | Some (Inr xs) \<Rightarrow> Some (py_call rt data_type (VList xs)))
                       else
                         (case build_pairs n rt cfg (zip_longest items types) of
                            None \<Rightarrow> None
                          | Some (Inl e) \<Rightarrow> Some (Inl e)
                          | Some (Inr xs) \<Rightarrow> Some (py_call rt data_type (VList xs)))))
           | Inr False \<Rightarrow>
               (case extract_generic collection [TAny] of
                  [] \<Rightarrow> Some (Inl IndexError)
                | item_type # rest \<Rightarrow>
                    (case py_iter data of
                       Inl e \<Rightarrow> Some (Inl e)
                     | Inr items \<Rightarrow>
                         if is_set data_type then
                           (case build_set_items n rt cfg [item_type] [] items of
                              None \<Rightarrow> None
                            | Some (Inl e) \<Rightarrow> Some (Inl e)
                            | Some (Inr xs) \<Rightarrow>
                                Some (Inr (if data_type = CSet then VSet xs else VFrozenSet xs)))
                         else
                           (case build_items n rt cfg item_type items of
                              None \<Rightarrow> None
                            | Some (Inl e) \<Rightarrow> Some (Inl e)
                            | Some (Inr xs) \<Rightarrow> Some (py_call rt data_type (VList xs)))))))"

| "build_items n rt cfg item_type [] = Some (Inr [])"
| "build_items n rt cfg item_type (item # items) =
     (case build_value n rt cfg item_type item of
        None \<Rightarrow> None
      | Some (Inl e) \<Rightarrow> Some (Inl e)
      | Some (Inr x) \<Rightarrow>
          (case build_items n rt cfg item_type items of
             None \<Rightarrow> None
           | Some (Inl e) \<Rightarrow> Some (Inl e)
           | Some (Inr xs) \<Rightarrow> Some (Inr (x # xs))))"

| "build_set_items n rt cfg types acc [] = Some (Inr acc)"
| "build_set_items n rt cfg types acc (single_val # items) =
     (case types of
        [] \<Rightarrow> Some (Inl IndexError)
      | item_type # rest \<Rightarrow>
          (case build_value n rt cfg item_type single_val of
             None \<Rightarrow> None
           | Some (Inl e) \<Rightarrow> Some (Inl e)
           | Some (Inr x) \<Rightarrow>
               (case set_add rt acc x of
                  Inl e \<Rightarrow> Some (Inl e)
                | Inr acc' \<Rightarrow> build_set_items n rt cfg types acc' items)))"

| "build_pairs n rt cfg [] = Some (Inr [])"
| "build_pairs n rt cfg ((item, type') # pairs) =
     (case build_value n rt cfg type' item of
        None \<Rightarrow> None
      | Some (Inl e) \<Rightarrow> Some (Inl e)
      | Some (Inr x) \<Rightarrow>
          (case build_pairs n rt cfg pairs of
             None \<Rightarrow> None
           | Some (Inl e) \<Rightarrow> Some (Inl e)
           | Some (Inr xs) \<Rightarrow> Some (Inr (x # xs))))"

| "build_dict_items n rt cfg item_type acc [] = Some (Inr acc)"
| "build_dict_items n rt cfg item_type acc ((key, value) # items) =
     (case build_value n rt cfg item_type value of
        None \<Rightarrow> None
      | Some (Inl e) \<Rightarrow> Some (Inl e)
      | Some (Inr x) \<Rightarrow>
          (case dict_setitem rt acc key x of
             Inl e \<Rightarrow> Some (Inl e)
           | Inr acc' \<Rightarrow> build_dict_items n rt cfg item_type acc' items))"

| "from_dict n rt cfg data_class data =
     (case get_data_class_hints data_class of
        Inl (NameError msg) \<Rightarrow> Some (Inl (ForwardReferenceError msg))
      | Inl e \<Rightarrow> Some (Inl e)
      | Inr data_class_hints \<Rightarrow>
          (let data_class_fields = get_fields data_class;
               extra_fields = set (filter (\<lambda>k. k \<notin> set (map (\<lambda>f. VStr (f_name f)) data_class_fields))
                                     (map fst data))
           in if strict cfg \<and> extra_fields \<noteq> {}
              then Some (Inl (UnexpectedDataError extra_fields))
              else (case from_dict_fields n rt cfg data_class_hints data data_class_fields [] [] of
                      None \<Rightarrow> None
                    | Some (Inl e) \<Rightarrow> Some (Inl e)
                    | Some (Inr (init_values, post_init_values)) \<Rightarrow>
                        Some (Inr (create_instance data_class init_values post_init_values)))))"

| "from_dict_fields n rt cfg hints data [] init_values post_init_values =
     Some (Inr (init_values, post_init_values))"
| "from_dict_fields n rt cfg hints data (fld # flds) init_values post_init_values =
     (case map_of hints (f_name fld) of
        None \<Rightarrow> Some (Inl KeyError)
      | Some field_type \<Rightarrow>
          (let bind_value = (\<lambda>value.
                 if f_init fld
                 then from_dict_fields n rt cfg hints data flds
                        (alist_store init_values (f_name fld) value) post_init_values
                 else from_dict_fields n rt cfg hints data flds
                        init_values (alist_store post_init_values (f_name fld) value))
           in case dict_get data (VStr (f_name fld)) of
                Some field_data \<Rightarrow>
                  (case transform_value rt (type_hooks cfg) (cast cfg) field_type field_data of
                     Inl e \<Rightarrow> Some (Inl (field_error (f_name fld) e))
                   | Inr transformed_value \<Rightarrow>
                       (case build_value n rt cfg field_type transformed_value of
                          None \<Rightarrow> None
                        | Some (Inl e) \<Rightarrow> Some (Inl (field_error (f_name fld) e))
                        | Some (Inr value) \<Rightarrow>
                            if check_types cfg then
                              (case is_instance value field_type of
                                 Inl e \<Rightarrow> Some (Inl e)
                               | Inr False \<Rightarrow>
                                   Some (Inl (WrongTypeError [f_name fld] field_type value))
                               | Inr True \<Rightarrow> bind_value value)
                            else bind_value value))
              | None \<Rightarrow>
                  if \<not> f_init fld
                  then from_dict_fields n rt cfg hints data flds init_values post_init_values
                  else (case get_default_value_for_field fld field_type
                               (allow_missing_fields_as_none cfg) of
                          None \<Rightarrow> Some (Inl (MissingValueError [f_name fld]))
                        | Some value \<Rightarrow> bind_value value)))"
  by pat_completeness auto
termination
  by (relation "inv_image (less_than <*lex*> less_than <*lex*> less_than)
       (\<lambda>x. case x of
           Inl (Inl (Inl (n, rt, cfg, t, d))) \<Rightarrow> (n, 0::nat, 0::nat)
         | Inl (Inl (Inr (n, rt, cfg, u, d))) \<Rightarrow> (n, 2, 0)
         | Inl (Inr (Inl (n, rt, cfg, u, ts, d, m))) \<Rightarrow> (n, 1, length ts)
         | Inl (Inr (Inr (Inl (n, rt, cfg, c, d)))) \<Rightarrow> (n, 2, 0)
         | Inl (Inr (Inr (Inr (n, rt, cfg, t, items)))) \<Rightarrow> (n, 1, length items)
         | Inr (Inl (Inl (n, rt, cfg, ts, acc, items))) \<Rightarrow> (n, 1, length items)
         | Inr (Inl (Inr (n, rt, cfg, pairs))) \<Rightarrow> (n, 1, length pairs)
         | Inr (Inr (Inl (n, rt, cfg, t, acc, items))) \<Rightarrow> (n, 1, length items)
         | Inr (Inr (Inr (Inl (n, rt, cfg, dc, data)))) \<Rightarrow> (n, 2, 0)
         | Inr (Inr (Inr (Inr (n, rt, cfg, hints, data, flds, i, p)))) \<Rightarrow> (n, 1, length flds))")
     auto

lemmas build_simps =
  build_value.simps build_value_for_union.simps union_loop.simps
  build_value_for_collection.simps build_items.simps build_set_items.simps
  build_pairs.simps build_dict_items.simps from_dict.simps from_dict_fields.simps

declare build_simps [simp del]

subsection \<open>One member of a union\<close>

text \<open>
  The body of the loop of \<open>_build_value_for_union\<close> for one member, by its outcome: the
  member is passed over (\<open>Skip\<close>, with the data the loop goes on with), it matches
  (\<open>Match\<close>, with that data and the built value), or an exception leaves the loop
  (\<open>Raise\<close>). A transform that raises leaves the data as it was; a \<open>DaciteError\<close> from the
  build, and a built value that does not conform, pass the member over with the
  transformed data.
\<close>

datatype probe_result = Skip val | Match val val | Raise exn | OutOfFuel

definition probe_member :: "nat \<Rightarrow> env \<Rightarrow> config \<Rightarrow> ty \<Rightarrow> val \<Rightarrow> probe_result" where
  "probe_member n rt cfg inner_type data =
     (case transform_value rt (type_hooks cfg) (cast cfg) inner_type data of
        Inl e \<Rightarrow> Skip data
      | Inr data \<Rightarrow>
          (case build_value n rt cfg inner_type data of
             None \<Rightarrow> OutOfFuel
           | Some (Inl e) \<Rightarrow> if is_DaciteError e then Skip data else Raise e
           | Some (Inr value) \<Rightarrow>
               (case is_instance value inner_type of
                  Inl e \<Rightarrow> if is_DaciteError e then Skip data else Raise e
                | Inr True \<Rightarrow> Match data value
                | Inr False \<Rightarrow> Skip data)))"

text \<open>The data that the loop carries past a run of members each of which is passed over;
  \<open>None\<close> when one of them matches, raises or needs more fuel.\<close>

fun carried :: "nat \<Rightarrow> env \<Rightarrow> config \<Rightarrow> ty list \<Rightarrow> val \<Rightarrow> val option" where
  "carried n rt cfg [] data = Some data"
| "carried n rt cfg (t # ts) data =
     (case probe_member n rt cfg t data of Skip data' \<Rightarrow> carried n rt cfg ts data' | _ \<Rightarrow> None)"

section \<open>Example data for the concrete instances\<close>

text \<open>A runtime with no data classes. The constructor calls that the model does not
  interpret are its parameter \<open>ctor\<close>, and the concrete instances below hold for every
  \<open>ctor\<close>.\<close>

definition basic_runtime :: "(cls \<Rightarrow> val \<Rightarrow> exn + val) \<Rightarrow> env" where
  "basic_runtime ctor = \<lparr> classes = (\<lambda>n. None), construct = ctor \<rparr>"

text \<open>A plain data class: every field is a constructor parameter without a default, all
  type hints resolve, there is no custom \<open>from_dict\<close>.\<close>

definition plain_class :: "string \<Rightarrow> (string \<times> ty) list \<Rightarrow> dataclass" where
  "plain_class name hints =
     \<lparr> dc_name = name,
       dc_fields = map (\<lambda>(attr, t). \<lparr> f_name = attr, f_init = True, f_default = None \<rparr>) hints,
       dc_type_hints = Inr hints,
       dc_from_dict = None,
       dc_hashable = False \<rparr>"

text \<open>A runtime that knows the data classes of a list, by name.\<close>

definition runtime_of :: "dataclass list \<Rightarrow> (cls \<Rightarrow> val \<Rightarrow> exn + val) \<Rightarrow> env" where
  "runtime_of dcs ctor =
     \<lparr> classes = (\<lambda>n. find (\<lambda>dc. dc_name dc = n) dcs), construct = ctor \<rparr>"

text \<open>Three hooks: \<open>lambda v: v\<close>, \<open>lambda v: v + 1\<close> (on an \<open>int\<close>) and \<open>lambda v: c\<close>.\<close>

definition identity_hook :: hook where
  "identity_hook value = Inr value"

definition increment_hook :: hook where
  "increment_hook value = (case value of VInt i \<Rightarrow> Inr (VInt (i + 1)) | _ \<Rightarrow> Inl TypeError)"

definition constant_hook :: "val \<Rightarrow> hook" where
  "constant_hook c value = Inr c"

text \<open>A hook that raises.\<close>

definition raising_hook :: hook where
  "raising_hook value = Inl ValueError"

text \<open>A data class with one field, which has a default.\<close>

definition class_with_default :: "string \<Rightarrow> string \<Rightarrow> ty \<Rightarrow> val \<Rightarrow> dataclass" where
  "class_with_default name attr t d =
     \<lparr> dc_name = name,
       dc_fields = [\<lparr> f_name = attr, f_init = True, f_default = Some d \<rparr>],
       dc_type_hints = Inr [(attr, t)],
       dc_from_dict = None,
       dc_hashable = False \<rparr>"

lemmas eval_simps =
  build_simps transform_value.simps peel_and_recurse.simps is_instance.simps
  type_pred_defs generic_hooks_def apply_hook_def Config_def basic_runtime_def plain_class_def
  runtime_of_def get_data_class_hints_def get_fields_def get_default_value_for_field_def
  create_instance_def field_error_def Data_def is_dataclass_def py_call_def py_collect_def
  dict_setitem_def py_len_def make_union_def extract_optional_def
  identity_hook_def increment_hook_def constant_hook_def

section \<open>The matcher on fixed-arity tuples\<close>

lemma py_all_True_iff: "py_all f xs = Inr True \<longleftrightarrow> list_all (\<lambda>x. f x = Inr True) xs"
  by (induction xs) (auto split: sum.splits)

lemma list_all_zip_all2:
  "length vs = length ts \<Longrightarrow> list_all (\<lambda>(v, t). P v t) (zip vs ts) = list_all2 P vs ts"
  by (induction vs ts rule: list_induct2) auto

lemma is_instance_fixed_tuple:
  assumes "\<not> (length ts = 1 \<and> ts ! 0 = TValue (VTuple []))"
    and "\<not> (length ts = 2 \<and> ts ! 1 = TEllipsis)"
  shows "is_instance (VTuple vs) (TGeneric CTuple ts) =
     (if length ts \<noteq> length vs then Inr False
      else py_all (\<lambda>(item, item_type). is_instance item item_type) (zip vs ts))"
  using assms
  by (subst is_instance.simps) (auto simp: type_pred_defs py_len_def Let_def)

text \<open>
  C8. For a fixed heterogeneous tuple type \<open>Tuple[T1, ..., Tn]\<close> (neither \<open>Tuple[()]\<close> nor
  \<open>Tuple[T, ...]\<close>) and a tuple value, \<open>is_instance\<close> returns \<open>False\<close>, and raises nothing,
  when the lengths differ, and it returns \<open>True\<close> exactly when the lengths are equal and
  every element conforms to the type declared for its position.
\<close>

theorem fixed_tuple_conformance:
  assumes "\<not> (length ts = 1 \<and> ts ! 0 = TValue (VTuple []))"
    and "\<not> (length ts = 2 \<and> ts ! 1 = TEllipsis)"
  shows "(length vs \<noteq> length ts \<longrightarrow> is_instance (VTuple vs) (TGeneric CTuple ts) = Inr False)
       \<and> (is_instance (VTuple vs) (TGeneric CTuple ts) = Inr True \<longleftrightarrow>
            length vs = length ts \<and> list_all2 (\<lambda>v t. is_instance v t = Inr True) vs ts)"
proof -
  note eq = is_instance_fixed_tuple [OF assms, of vs]
  show ?thesis
  proof (cases "length vs = length ts")
    case True
    have "list_all (\<lambda>(v, t). is_instance v t = Inr True) (zip vs ts)
          = list_all2 (\<lambda>v t. is_instance v t = Inr True) vs ts"
      using True by (rule list_all_zip_all2)
    then show ?thesis using True
      by (simp add: eq py_all_True_iff case_prod_unfold)
  next
    case False
    then show ?thesis by (auto simp: eq dest: list_all2_lengthD)
  qed
qed

text \<open>Scenario E of the specification: \<open>(1, 2, 3)\<close> does not conform to
  \<open>Tuple[int, int]\<close>, while \<open>(1, 2)\<close> does.\<close>

theorem fixed_tuple_conformance_witness:
  "is_instance (VTuple [VInt 1, VInt 2, VInt 3]) (TGeneric CTuple [TClass CInt, TClass CInt])
     = Inr False
   \<and> is_instance (VTuple [VInt 1, VInt 2]) (TGeneric CTuple [TClass CInt, TClass CInt])
     = Inr True"
  using fixed_tuple_conformance [of "[TClass CInt, TClass CInt]" "[VInt 1, VInt 2, VInt 3]"]
        fixed_tuple_conformance [of "[TClass CInt, TClass CInt]" "[VInt 1, VInt 2]"]
  by (simp add: is_instance.simps type_pred_defs)

section \<open>Hooks and casts in \<open>transform_value\<close>\<close>

text \<open>
  C2, as stated, fails: with the hooks \<open>{List[int]: lambda v: v, int: lambda v: v + 1}\<close>
  the exact-type hook of \<open>List[int]\<close> returns \<open>[1]\<close> for \<open>[1]\<close>, and \<open>transform_value\<close>
  then still transforms each element against \<open>int\<close> and returns \<open>[2]\<close>.
\<close>

theorem exact_hook_not_terminal_counterexample:
  "\<forall>ctor. map_of [(TGeneric CList [TClass CInt], identity_hook), (TClass CInt, increment_hook)]
     (TGeneric CList [TClass CInt]) = Some identity_hook
   \<and> identity_hook (VList [VInt 1]) = Inr (VList [VInt 1])
   \<and> transform_value (basic_runtime ctor)
       (map_of [(TGeneric CList [TClass CInt], identity_hook), (TClass CInt, increment_hook)])
       [] (TGeneric CList [TClass CInt]) (VList [VInt 1])
     = Inr (VList [VInt 2])"
  by (simp add: eval_simps)

lemma peel_and_recurse_plain:
  "\<not> is_optional t \<Longrightarrow> \<not> is_generic_collection t \<Longrightarrow> peel_and_recurse rt hooks cast_list t v = Inr v"
  by (simp add: peel_and_recurse.simps)

text \<open>
  C2, amended. When a hook is registered for the exact declared type, \<open>transform_value\<close>
  applies it (after the generic hooks) in the place of the cast loop of that call, and
  then goes on as it does without a hook: it unwraps an optional declared type and
  transforms the value against the unwrapped type, and it transforms the elements of a
  collection; each of these nested transforms applies the hooks and the casts of its own
  declared type. When the declared type is neither optional nor a generic collection,
  the result is the hook's result, whatever the cast list.
\<close>

theorem exact_hook_replaces_cast:
  assumes "hooks target_type = Some h"
  shows "transform_value rt hooks cast_list target_type value =
           (case generic_hooks hooks target_type value of
              Inl e \<Rightarrow> Inl e
            | Inr v \<Rightarrow>
                (case h v of
                   Inl e \<Rightarrow> Inl e
                 | Inr v' \<Rightarrow> peel_and_recurse rt hooks cast_list target_type v'))
       \<and> (\<not> is_optional target_type \<and> \<not> is_generic_collection target_type \<longrightarrow>
            transform_value rt hooks cast_list target_type value =
              (case generic_hooks hooks target_type value of Inl e \<Rightarrow> Inl e | Inr v \<Rightarrow> h v)
            \<and> transform_value rt hooks cast_list target_type value =
                transform_value rt hooks cast_list' target_type value)
       \<and> (is_optional target_type \<and> generic_hooks hooks target_type value = Inr v1
            \<and> h v1 = Inr v2 \<and> v2 \<noteq> VNone \<and> extract_optional target_type = Inr target_type'
          \<longrightarrow> transform_value rt hooks cast_list target_type value =
                transform_value rt hooks cast_list target_type' v2)"
proof -
  have unfold: "transform_value rt hooks cs target_type value =
           (case generic_hooks hooks target_type value of
              Inl e \<Rightarrow> Inl e
            | Inr v \<Rightarrow>
                (case h v of
                   Inl e \<Rightarrow> Inl e
                 | Inr v' \<Rightarrow> peel_and_recurse rt hooks cs target_type v'))" for cs
    using assms by (simp add: transform_value.simps split: sum.splits)
  have plain: "transform_value rt hooks cs target_type value =
              (case generic_hooks hooks target_type value of Inl e \<Rightarrow> Inl e | Inr v \<Rightarrow> h v)"
    if "\<not> is_optional target_type" and "\<not> is_generic_collection target_type" for cs
    using that by (simp add: unfold peel_and_recurse_plain split: sum.splits)
  have peel: "transform_value rt hooks cast_list target_type value =
                transform_value rt hooks cast_list target_type' v2"
    if "is_optional target_type" and "generic_hooks hooks target_type value = Inr v1"
      and "h v1 = Inr v2" and "v2 \<noteq> VNone" and "extract_optional target_type = Inr target_type'"
    using that by (simp add: unfold peel_and_recurse.simps)
  show ?thesis
    using unfold [of cast_list] plain [of cast_list] plain [of cast_list'] peel by simp
qed

text \<open>With \<open>int\<close> in the cast list: the hooked types \<open>List[int]\<close> and \<open>int\<close> are transformed
  without a call of \<open>int(value)\<close>, whatever that call would do; with the hook
  \<open>{Optional[int]: lambda v: v}\<close> the value \<open>"5"\<close> is unwrapped to \<open>int\<close>, which has no hook,
  and the result is that of \<open>int("5")\<close>.\<close>

theorem exact_hook_replaces_cast_witness:
  "\<forall>ctor. transform_value (basic_runtime ctor)
       (map_of [(TGeneric CList [TClass CInt], identity_hook), (TClass CInt, increment_hook)])
       [TClass CInt] (TGeneric CList [TClass CInt]) (VList [VInt 1])
     = Inr (VList [VInt 2])
   \<and> transform_value (basic_runtime ctor) (map_of [(TClass CInt, increment_hook)])
       [TClass CInt] (TClass CInt) (VInt 1)
     = Inr (VInt 2)
   \<and> transform_value (basic_runtime ctor)
       (map_of [(TUnion [TClass CInt, TClass CNoneType], identity_hook)])
       [TClass CInt] (TUnion [TClass CInt, TClass CNoneType]) (VStr ''5'')
     = ctor CInt (VStr ''5'')" (is "\<forall>ctor. ?P ctor")
proof
  fix ctor
  show "?P ctor"
    using exact_hook_replaces_cast [of
        "map_of [(TGeneric CList [TClass CInt], identity_hook), (TClass CInt, increment_hook)]"
        "TGeneric CList [TClass CInt]" identity_hook "basic_runtime ctor" "[TClass CInt]"
        "VList [VInt 1]" "[]" "VList [VInt 1]" "VList [VInt 1]" "TClass CInt"]
      exact_hook_replaces_cast [of "map_of [(TClass CInt, increment_hook)]" "TClass CInt"
        increment_hook "basic_runtime ctor" "[TClass CInt]" "VInt 1" "[]" "VInt 1" "VInt 2"
        "TClass CInt"]
      exact_hook_replaces_cast [of
        "map_of [(TUnion [TClass CInt, TClass CNoneType], identity_hook)]"
        "TUnion [TClass CInt, TClass CNoneType]" identity_hook "basic_runtime ctor" "[TClass CInt]"
        "VStr ''5''" "[]" "VStr ''5''" "VStr ''5''" "TClass CInt"]
    by (cases "ctor CInt (VStr ''5'')") (simp_all add: eval_simps)
qed

section \<open>A null value for an optional field\<close>

text \<open>
  C3, as stated, fails: the hooks run before the test for \<open>None\<close>. With the wildcard hook
  \<open>{Any: lambda v: 0}\<close>, \<open>transform_value\<close> returns \<open>0\<close> for a null value against
  \<open>Optional[int]\<close>, and the field \<open>n: Optional[int]\<close> of the input \<open>{"n": None}\<close> is
  constructed as \<open>0\<close>.
\<close>

theorem null_with_wildcard_hook_counterexample:
  "\<forall>ctor. is_optional (TUnion [TClass CInt, TClass CNoneType])
   \<and> transform_value (basic_runtime ctor) (map_of [(TAny, constant_hook (VInt 0))]) []
        (TUnion [TClass CInt, TClass CNoneType]) VNone
     = Inr (VInt 0)
   \<and> from_dict (Suc (Suc 0)) (basic_runtime ctor)
        (Config\<lparr>type_hooks := map_of [(TAny, constant_hook (VInt 0))]\<rparr>)
        (plain_class ''X'' [(''n'', TUnion [TClass CInt, TClass CNoneType])]) [(VStr ''n'', VNone)]
     = Some (Inr (VObj ''X'' [(''n'', VInt 0)]))"
  by (simp add: eval_simps)

lemma is_subclass_union: "\<not> is_subclass (TUnion ts) cast_type"
  by (simp add: type_pred_defs)

lemma cast_loop_union: "cast_loop rt (TUnion ts) value cast_list = Inr (Continue value)"
  by (induction cast_list) (simp_all add: is_subclass_union)

lemma generic_hooks_union: "hooks TAny = None \<Longrightarrow> generic_hooks hooks (TUnion ts) value = Inr value"
  by (simp add: generic_hooks_def apply_hook_def type_pred_defs)

lemma transform_value_optional_null:
  assumes "is_optional u" and "hooks TAny = None" and "hooks u = None"
  shows "transform_value rt hooks cast_list u VNone = Inr VNone"
proof -
  from assms(1) obtain ts where u: "u = TUnion ts"
    by (cases u) (auto simp: is_optional_def is_union_def)
  have "peel_and_recurse rt hooks cast_list u VNone = Inr VNone"
    using assms(1) by (simp add: peel_and_recurse.simps)
  then show ?thesis
    using assms(2,3) by (simp add: transform_value.simps u generic_hooks_union cast_loop_union)
qed

lemma is_instance_class: "is_instance v (TClass c) =
   Inr ((isinstance v CInt \<or> isinstance v CFloat) \<and> c \<in> {CFloat, CComplex} \<or> isinstance v c)"
  by (subst is_instance.simps) (auto simp: type_pred_defs)

lemma is_instance_None_origin:
  "is_generic_collection t \<Longrightarrow> extract_origin_collection t = Some origin
   \<Longrightarrow> is_instance VNone (TClass origin) = Inr False"
  by (auto simp: is_instance_class type_pred_defs split: if_splits)

lemma is_instance_None_Data: "is_instance VNone Data = Inr False"
  by (simp add: is_instance.simps Data_def type_pred_defs)

lemma build_value_None:
  assumes "\<not> is_init_var t" and "\<not> is_union t"
    and "extract_origin_collection t \<notin> {Some CSet, Some CFrozenSet}"
  shows "build_value (Suc n) rt cfg t VNone = Some (Inr VNone)"
proof (cases "is_generic_collection t")
  case True
  then obtain origin where o: "extract_origin_collection t = Some origin"
    by (auto simp: is_generic_collection_def split: if_splits option.splits)
  with assms(3) have "\<not> is_set origin" by (auto simp: is_set_def)
  with True o assms(1,2) show ?thesis
    by (simp add: build_value.simps is_instance_None_origin)
next
  case False
  with assms(1,2) show ?thesis
    by (simp add: build_value.simps is_instance_None_Data)
qed

text \<open>
  C3, amended. For a field declared \<open>Optional[T]\<close>, that is \<open>Union[T, None]\<close>, with \<open>T\<close>
  neither a union nor an \<open>InitVar\<close> nor a set-like collection: when neither a wildcard
  hook nor a hook for the optional type itself is registered, \<open>transform_value\<close> returns
  \<open>None\<close> for a null value, and the builder, whose fast path does build the value
  against \<open>T\<close>, yields \<open>None\<close>.
\<close>

theorem optional_null_without_hooks:
  assumes "hooks TAny = None" and "hooks (TUnion [t, TClass CNoneType]) = None"
    and "\<not> is_init_var t" and "\<not> is_union t"
    and "extract_origin_collection t \<notin> {Some CSet, Some CFrozenSet}"
  shows "transform_value rt hooks cast_list (TUnion [t, TClass CNoneType]) VNone = Inr VNone
       \<and> build_value (Suc (Suc n)) rt cfg (TUnion [t, TClass CNoneType]) VNone = Some (Inr VNone)"
proof -
  have opt: "is_optional (TUnion [t, TClass CNoneType])"
    by (simp add: type_pred_defs)
  have "transform_value rt hooks cast_list (TUnion [t, TClass CNoneType]) VNone = Inr VNone"
    using opt assms(1,2) by (rule transform_value_optional_null)
  moreover have "build_value (Suc (Suc n)) rt cfg (TUnion [t, TClass CNoneType]) VNone
      = build_value (Suc n) rt cfg t VNone"
    using opt by (simp add: build_value.simps build_value_for_union.simps type_pred_defs)
  ultimately show ?thesis
    using build_value_None [OF assms(3,4,5)] by simp
qed

theorem optional_null_without_hooks_witness:
  "\<forall>ctor. transform_value (basic_runtime ctor) (\<lambda>t. None) [] (TUnion [TClass CInt, TClass CNoneType]) VNone
     = Inr VNone
   \<and> build_value (Suc (Suc 0)) (basic_runtime ctor) Config (TUnion [TClass CInt, TClass CNoneType]) VNone
     = Some (Inr VNone)" (is "\<forall>ctor. ?P ctor")
proof
  fix ctor
  show "?P ctor"
    using optional_null_without_hooks [of "\<lambda>t. None" "TClass CInt" "basic_runtime ctor" "[]" 0 Config]
    by (simp add: type_pred_defs)
qed

section \<open>Reconstruction of a fixed-arity tuple\<close>

text \<open>
  C4, as stated, fails: \<open>zip_longest\<close> pairs over the longer length. For \<open>Tuple[int, int]\<close>
  and \<open>(1, 2, 3)\<close> the rebuilt tuple has the three elements, not two; and an arity
  mismatch can raise at this stage: for \<open>Tuple[int, Union[int, str]]\<close> and \<open>(1,)\<close> the
  missing element is built as \<open>None\<close> against the union, which raises \<open>UnionMatchError\<close>.
\<close>

theorem tuple_arity_mismatch_counterexample:
  "\<forall>ctor. build_value_for_collection (Suc 0) (basic_runtime ctor) Config
      (TGeneric CTuple [TClass CInt, TClass CInt]) (VTuple [VInt 1, VInt 2, VInt 3])
     = Some (Inr (VTuple [VInt 1, VInt 2, VInt 3]))
   \<and> build_value_for_collection (Suc 0) (basic_runtime ctor) Config
      (TGeneric CTuple [TClass CInt, TClass CInt]) (VTuple [VInt 1, VInt 2, VInt 3])
     \<noteq> Some (Inr (VTuple [VInt 1, VInt 2]))
   \<and> build_value_for_collection (Suc (Suc 0)) (basic_runtime ctor) Config
      (TGeneric CTuple [TClass CInt, TUnion [TClass CInt, TClass CStr]]) (VTuple [VInt 1])
     = Some (Inl (UnionMatchError [] (TUnion [TClass CInt, TClass CStr]) VNone))"
  by (simp add: eval_simps)

lemma length_zip_longest: "length (zip_longest xs ts) = max (length xs) (length ts)"
  by (induction xs ts rule: zip_longest.induct) auto

lemma build_pairs_length:
  "build_pairs n rt cfg pairs = Some (Inr xs) \<Longrightarrow> length xs = length pairs"
proof (induction pairs arbitrary: xs)
  case Nil
  then show ?case by (simp add: build_pairs.simps)
next
  case (Cons p pairs)
  obtain item t where p: "p = (item, t)" by (cases p)
  from Cons.prems obtain y ys where "build_pairs n rt cfg pairs = Some (Inr ys)" and "xs = y # ys"
    by (auto simp: p build_pairs.simps split: option.splits sum.splits)
  with Cons.IH show ?case by simp
qed

lemma build_value_for_fixed_tuple:
  assumes "items \<noteq> []" and "\<not> (length types = 2 \<and> types ! 1 = TEllipsis)"
  shows "build_value_for_collection n rt cfg (TGeneric CTuple types) (VTuple items) =
           (case build_pairs n rt cfg (zip_longest items types) of
              None \<Rightarrow> None
            | Some (Inl e) \<Rightarrow> Some (Inl e)
            | Some (Inr xs) \<Rightarrow> Some (Inr (VTuple xs)))"
  using assms
  by (auto simp: build_value_for_collection.simps is_instance.simps type_pred_defs py_call_def
           Let_def split: option.splits sum.splits)

lemma build_value_no_type: "build_value (Suc n) rt cfg (TValue VNone) v = Some (Inr v)"
  by (simp add: build_value.simps type_pred_defs is_dataclass_def)

lemma build_pairs_iff:
  "build_pairs n rt cfg pairs = Some (Inr xs) \<longleftrightarrow>
   list_all2 (\<lambda>(item, t) x. build_value n rt cfg t item = Some (Inr x)) pairs xs"
proof (induction pairs arbitrary: xs)
  case Nil
  then show ?case by (auto simp: build_pairs.simps)
next
  case (Cons p pairs)
  obtain item t where p: "p = (item, t)" by (cases p)
  show ?case
  proof (cases xs)
    case Nil
    then show ?thesis
      by (auto simp: p build_pairs.simps split: option.splits sum.splits)
  next
    case (Cons y ys)
    with Cons.IH [of ys] show ?thesis
      by (auto simp: p build_pairs.simps split: option.splits sum.splits)
  qed
qed

lemma build_pairs_error:
  "build_pairs n rt cfg pairs = Some (Inl e) \<Longrightarrow>
   list_ex (\<lambda>(item, t). build_value n rt cfg t item = Some (Inl e)) pairs"
proof (induction pairs)
  case Nil
  then show ?case by (simp add: build_pairs.simps)
next
  case (Cons p pairs)
  obtain item t where p: "p = (item, t)" by (cases p)
  from Cons show ?case
    by (auto simp: p build_pairs.simps split: option.splits sum.splits)
qed

lemma zip_longest_eq:
  "zip_longest xs ts =
     zip xs ts @ map (\<lambda>x. (x, TValue VNone)) (drop (length ts) xs)
       @ map (\<lambda>t. (VNone, t)) (drop (length xs) ts)"
  by (induction xs ts rule: zip_longest.induct) auto

lemma is_instance_tuple_too_long:
  assumes "\<not> (length types = 2 \<and> types ! 1 = TEllipsis)" and "length types < length xs"
  shows "is_instance (VTuple xs) (TGeneric CTuple types) = Inr False"
  using assms
  by (subst is_instance.simps) (auto simp: type_pred_defs py_len_def Let_def)

text \<open>
  C4, amended. For every fixed-arity tuple type and every non-empty input tuple,
  collection reconstruction pairs the input elements positionally with the declared types
  over the longer of the two lengths: the common positions, then each element beyond the
  arity with no type, which passes it through unchanged, then each declared type beyond
  the input with \<open>None\<close>, which is built against that type. The stage returns a tuple
  exactly when every pair builds, and the tuple then holds the built values, as many as
  the longer of the input and the arity; an exception that the stage raises is one that
  building a pair raises. A rebuilt tuple of an input longer than the arity fails the
  conformance test of the matcher on its length; a rebuilt tuple of a shorter input has
  the declared arity.
\<close>

theorem tuple_reconstruction_uses_longer_length:
  assumes "items \<noteq> []" and "\<not> (length types = 2 \<and> types ! 1 = TEllipsis)"
  shows "(build_value_for_collection n rt cfg (TGeneric CTuple types) (VTuple items) = Some (Inr r)
            \<longleftrightarrow> (\<exists>xs. r = VTuple xs
                    \<and> list_all2 (\<lambda>(item, t) x. build_value n rt cfg t item = Some (Inr x))
                        (zip_longest items types) xs))
       \<and> (build_value_for_collection n rt cfg (TGeneric CTuple types) (VTuple items) = Some (Inl e)
            \<longrightarrow> list_ex (\<lambda>(item, t). build_value n rt cfg t item = Some (Inl e))
                  (zip_longest items types))
       \<and> zip_longest items types =
            zip items types @ map (\<lambda>x. (x, TValue VNone)) (drop (length types) items)
              @ map (\<lambda>t. (VNone, t)) (drop (length items) types)
       \<and> length (zip_longest items types) = max (length items) (length types)
       \<and> (\<forall>m v. build_value (Suc m) rt cfg (TValue VNone) v = Some (Inr v))
       \<and> (\<forall>xs. build_value_for_collection n rt cfg (TGeneric CTuple types) (VTuple items)
                  = Some (Inr (VTuple xs))
               \<longrightarrow> length xs = max (length items) (length types)
                   \<and> (length types < length items
                        \<longrightarrow> is_instance (VTuple xs) (TGeneric CTuple types) = Inr False))"
proof -
  let ?call = "build_value_for_collection n rt cfg (TGeneric CTuple types) (VTuple items)"
  let ?pairs = "zip_longest items types"
  note eq = build_value_for_fixed_tuple [OF assms, of n rt cfg]
  have ok: "?call = Some (Inr r) \<longleftrightarrow> (\<exists>xs. r = VTuple xs \<and> build_pairs n rt cfg ?pairs = Some (Inr xs))"
    for r
    by (auto simp: eq split: option.splits sum.splits)
  have success: "?call = Some (Inr r)
            \<longleftrightarrow> (\<exists>xs. r = VTuple xs
                    \<and> list_all2 (\<lambda>(item, t) x. build_value n rt cfg t item = Some (Inr x)) ?pairs xs)"
    by (simp add: ok build_pairs_iff)
  have failure: "list_ex (\<lambda>(item, t). build_value n rt cfg t item = Some (Inl e)) ?pairs"
    if "?call = Some (Inl e)"
  proof -
    from that have "build_pairs n rt cfg ?pairs = Some (Inl e)"
      by (auto simp: eq split: option.splits sum.splits)
    then show ?thesis by (rule build_pairs_error)
  qed
  have rebuilt: "length xs = max (length items) (length types)
                 \<and> (length types < length items
                      \<longrightarrow> is_instance (VTuple xs) (TGeneric CTuple types) = Inr False)"
    if "?call = Some (Inr (VTuple xs))" for xs
  proof -
    from that have "build_pairs n rt cfg ?pairs = Some (Inr xs)" by (simp add: ok)
    then have len: "length xs = max (length items) (length types)"
      by (simp add: build_pairs_length length_zip_longest)
    then show ?thesis
      using is_instance_tuple_too_long [OF assms(2), of xs] by auto
  qed
  show ?thesis
    using success failure rebuilt
    by (simp add: zip_longest_eq [symmetric] length_zip_longest build_value_no_type)
qed

text \<open>\<open>([1, 1, 2], 5, 7)\<close> for \<open>Tuple[Set[int], int]\<close>: the first element is built into a
  set, the surplus \<open>7\<close> is kept, and the rebuilt tuple does not conform. \<open>(1,)\<close> for
  \<open>Tuple[int, Optional[int]]\<close>: the rebuilt tuple is \<open>(1, None)\<close>, which conforms.\<close>

theorem tuple_reconstruction_uses_longer_length_witness:
  "\<forall>ctor. build_value_for_collection (Suc (Suc 0)) (basic_runtime ctor) Config
      (TGeneric CTuple [TGeneric CSet [TClass CInt], TClass CInt])
      (VTuple [VList [VInt 1, VInt 1, VInt 2], VInt 5, VInt 7])
     = Some (Inr (VTuple [VSet [VInt 1, VInt 2], VInt 5, VInt 7]))
   \<and> is_instance (VTuple [VSet [VInt 1, VInt 2], VInt 5, VInt 7])
        (TGeneric CTuple [TGeneric CSet [TClass CInt], TClass CInt])
     = Inr False
   \<and> build_value_for_collection (Suc (Suc 0)) (basic_runtime ctor) Config
      (TGeneric CTuple [TClass CInt, TUnion [TClass CInt, TClass CNoneType]]) (VTuple [VInt 1])
     = Some (Inr (VTuple [VInt 1, VNone]))
   \<and> is_instance (VTuple [VInt 1, VNone])
        (TGeneric CTuple [TClass CInt, TUnion [TClass CInt, TClass CNoneType]])
     = Inr True" (is "\<forall>ctor. ?P ctor")
proof
  fix ctor
  show "?P ctor"
    using tuple_reconstruction_uses_longer_length [of
            "[VList [VInt 1, VInt 1, VInt 2], VInt 5, VInt 7]"
            "[TGeneric CSet [TClass CInt], TClass CInt]" "Suc (Suc 0)" "basic_runtime ctor" Config
            "VTuple [VSet [VInt 1, VInt 2], VInt 5, VInt 7]" TypeError]
          tuple_reconstruction_uses_longer_length [of "[VInt 1]"
            "[TClass CInt, TUnion [TClass CInt, TClass CNoneType]]" "Suc (Suc 0)"
            "basic_runtime ctor" Config "VTuple [VInt 1, VNone]" TypeError]
    by (simp add: eval_simps)
qed

section \<open>The fast path for a two-member optional\<close>

text \<open>
  C5 (the code departs from the claim). The fast path of \<open>_build_value_for_union\<close> builds
  against \<open>types[0]\<close>, the member declared first, which is the null type for
  \<open>Union[None, X]\<close>: the mapping given for a field \<open>x: Union[None, X]\<close> is passed through
  unbuilt and then fails the type check, while the same input for \<open>x: Union[X, None]\<close> is
  built into an \<open>X\<close>.
\<close>

theorem optional_fast_path_builds_first_member:
  "from_dict (Suc (Suc (Suc n))) (runtime_of [plain_class ''X'' [(''a'', TClass CInt)]] ctor) Config
     (plain_class ''Y'' [(''x'', TUnion [TClass CNoneType, TClass (CUser ''X'')])])
     [(VStr ''x'', VDict [(VStr ''a'', VInt 1)])]
   = Some (Inl (WrongTypeError [''x''] (TUnion [TClass CNoneType, TClass (CUser ''X'')])
                  (VDict [(VStr ''a'', VInt 1)])))
   \<and> from_dict (Suc (Suc (Suc n))) (runtime_of [plain_class ''X'' [(''a'', TClass CInt)]] ctor) Config
     (plain_class ''Y'' [(''x'', TUnion [TClass (CUser ''X''), TClass CNoneType])])
     [(VStr ''x'', VDict [(VStr ''a'', VInt 1)])]
   = Some (Inr (VObj ''Y'' [(''x'', VObj ''X'' [(''a'', VInt 1)])]))"
  by (simp add: eval_simps)

section \<open>Union resolution in strict mode\<close>

text \<open>
  C1 (the code departs from the claim). With \<open>strict_unions_match\<close> and a union none of
  whose members the value conforms to, the scan ends with an empty \<open>union_matches\<close>, and
  \<open>union_matches.popitem()\<close> raises \<open>KeyError\<close>: for the record \<open>X {v: Union[int, str]}\<close>
  and the input \<open>{"v": None}\<close>, \<open>from_dict\<close> raises \<open>KeyError\<close>, not \<open>UnionMatchError\<close>.
\<close>

theorem strict_union_without_match_raises_KeyError:
  "from_dict (Suc (Suc n)) (basic_runtime ctor) (Config\<lparr>strict_unions_match := True\<rparr>)
     (plain_class ''X'' [(''v'', TUnion [TClass CInt, TClass CStr])]) [(VStr ''v'', VNone)]
   = Some (Inl KeyError)"
  by (simp add: eval_simps)

section \<open>Union resolution in relaxed mode\<close>

lemma union_loop_step:
  "union_loop n rt cfg u (t # rest) data matches =
     (case probe_member n rt cfg t data of
        Skip data' \<Rightarrow> union_loop n rt cfg u rest data' matches
      | Match data' value \<Rightarrow>
          if strict_unions_match cfg
          then union_loop n rt cfg u rest data' (alist_store matches t value)
          else Some (Inr value)
      | Raise e \<Rightarrow> Some (Inl e)
      | OutOfFuel \<Rightarrow> None)"
  by (simp add: union_loop.simps probe_member_def split: sum.splits option.splits bool.splits)

lemma union_loop_carried:
  "carried n rt cfg earlier data = Some data0 \<Longrightarrow>
   union_loop n rt cfg u (earlier @ rest) data matches = union_loop n rt cfg u rest data0 matches"
proof (induction earlier arbitrary: data)
  case Nil
  then show ?case by simp
next
  case (Cons t earlier)
  from Cons.prems obtain data' where p: "probe_member n rt cfg t data = Skip data'"
    and c: "carried n rt cfg earlier data' = Some data0"
    by (auto split: probe_result.splits)
  from Cons.IH [OF c] p show ?case by (simp add: union_loop_step)
qed

text \<open>
  C6, as stated, fails: only a \<open>DaciteError\<close> of a member's build is caught. With a hook
  for \<open>int\<close> that raises \<open>ValueError\<close>, the record \<open>A {a: int}\<close> and the value
  \<open>{"a": "x"}\<close> for \<open>Union[A, Dict[str, str]]\<close>: the build against \<open>A\<close> raises
  \<open>ValueError\<close>; transform and build against \<open>Dict[str, str]\<close> succeed and the result
  conforms; the construction raises \<open>ValueError\<close> and does not return the value of the
  second member.
\<close>

theorem first_match_counterexample:
  "\<forall>ctor. \<not> strict_unions_match (Config\<lparr>type_hooks := map_of [(TClass CInt, raising_hook)]\<rparr>)
   \<and> build_value (Suc (Suc 0)) (runtime_of [plain_class ''A'' [(''a'', TClass CInt)]] ctor)
        (Config\<lparr>type_hooks := map_of [(TClass CInt, raising_hook)]\<rparr>)
        (TClass (CUser ''A'')) (VDict [(VStr ''a'', VStr ''x'')])
     = Some (Inl ValueError)
   \<and> transform_value (runtime_of [plain_class ''A'' [(''a'', TClass CInt)]] ctor)
        (map_of [(TClass CInt, raising_hook)]) []
        (TGeneric CDict [TClass CStr, TClass CStr]) (VDict [(VStr ''a'', VStr ''x'')])
     = Inr (VDict [(VStr ''a'', VStr ''x'')])
   \<and> build_value (Suc (Suc 0)) (runtime_of [plain_class ''A'' [(''a'', TClass CInt)]] ctor)
        (Config\<lparr>type_hooks := map_of [(TClass CInt, raising_hook)]\<rparr>)
        (TGeneric CDict [TClass CStr, TClass CStr]) (VDict [(VStr ''a'', VStr ''x'')])
     = Some (Inr (VDict [(VStr ''a'', VStr ''x'')]))
   \<and> is_instance (VDict [(VStr ''a'', VStr ''x'')]) (TGeneric CDict [TClass CStr, TClass CStr])
     = Inr True
   \<and> build_value_for_union (Suc (Suc 0)) (runtime_of [plain_class ''A'' [(''a'', TClass CInt)]] ctor)
        (Config\<lparr>type_hooks := map_of [(TClass CInt, raising_hook)]\<rparr>)
        (TUnion [TClass (CUser ''A''), TGeneric CDict [TClass CStr, TClass CStr]])
        (VDict [(VStr ''a'', VStr ''x'')])
     = Some (Inl ValueError)"
  by (simp add: eval_simps raising_hook_def)

text \<open>
  C6, amended. In relaxed mode, for a union that is not a two-member optional, let every
  member declared before \<open>t\<close> be passed over (its transform raised, its build raised a
  \<open>DaciteError\<close>, or its built value does not conform), and let \<open>data0\<close> be the data these
  members leave. If the transform of \<open>data0\<close> and the build against \<open>t\<close> succeed and the
  built value conforms, the construction returns that value, whatever the members declared
  after \<open>t\<close>; if the build or the match against \<open>t\<close> raises another exception, the
  construction raises it. So the first declared member that matches wins, and swapping two
  members that both match changes the result.
\<close>

theorem first_match_wins:
  assumes "\<not> strict_unions_match cfg"
    and "\<not> (is_optional (TUnion (earlier @ t # later)) \<and> length (earlier @ t # later) = 2)"
    and "carried n rt cfg earlier data = Some data0"
  shows "(transform_value rt (type_hooks cfg) (cast cfg) t data0 = Inr data1
          \<and> build_value n rt cfg t data1 = Some (Inr value)
          \<and> is_instance value t = Inr True
          \<longrightarrow> build_value_for_union n rt cfg (TUnion (earlier @ t # later)) data = Some (Inr value))
       \<and> (probe_member n rt cfg t data0 = Raise e
          \<longrightarrow> build_value_for_union n rt cfg (TUnion (earlier @ t # later)) data = Some (Inl e))"
proof -
  let ?u = "TUnion (earlier @ t # later)"
  have "build_value_for_union n rt cfg ?u data = union_loop n rt cfg ?u (earlier @ t # later) data []"
    using assms(2) by (auto simp: build_value_for_union.simps extract_generic_def Let_def)
  also have "\<dots> = union_loop n rt cfg ?u (t # later) data0 []"
    using assms(3) by (rule union_loop_carried)
  finally have eq: "build_value_for_union n rt cfg ?u data = union_loop n rt cfg ?u (t # later) data0 []" .
  show ?thesis
    using assms(1) by (auto simp: eq union_loop_step probe_member_def)
qed

text \<open>With the hook \<open>{str: lambda v: "s"}\<close>, \<open>5\<close> is built as \<open>5\<close> for \<open>Union[int, str]\<close> and
  as \<open>"s"\<close> for \<open>Union[str, int]\<close>; and \<open>"5"\<close> for \<open>Union[bool, str, int]\<close> is built by the
  second member, the first being passed over.\<close>

theorem first_match_wins_witness:
  "\<forall>ctor. build_value_for_union (Suc 0) (basic_runtime ctor)
      (Config\<lparr>type_hooks := map_of [(TClass CStr, constant_hook (VStr ''s''))]\<rparr>)
      (TUnion [TClass CInt, TClass CStr]) (VInt 5)
     = Some (Inr (VInt 5))
   \<and> build_value_for_union (Suc 0) (basic_runtime ctor)
      (Config\<lparr>type_hooks := map_of [(TClass CStr, constant_hook (VStr ''s''))]\<rparr>)
      (TUnion [TClass CStr, TClass CInt]) (VInt 5)
     = Some (Inr (VStr ''s''))
   \<and> build_value_for_union (Suc 0) (basic_runtime ctor) Config
      (TUnion [TClass CBool, TClass CStr, TClass CInt]) (VStr ''5'')
     = Some (Inr (VStr ''5''))" (is "\<forall>ctor. ?P ctor")
proof
  fix ctor
  show "?P ctor"
    using first_match_wins [of "Config\<lparr>type_hooks := map_of [(TClass CStr, constant_hook (VStr ''s''))]\<rparr>"
            "[]" "TClass CInt" "[TClass CStr]" "Suc 0" "basic_runtime ctor" "VInt 5" "VInt 5" "VInt 5" "VInt 5"]
          first_match_wins [of "Config\<lparr>type_hooks := map_of [(TClass CStr, constant_hook (VStr ''s''))]\<rparr>"
            "[]" "TClass CStr" "[TClass CInt]" "Suc 0" "basic_runtime ctor" "VInt 5" "VInt 5" "VStr ''s''" "VStr ''s''"]
          first_match_wins [of Config "[TClass CBool]" "TClass CStr" "[TClass CInt]" "Suc 0"
            "basic_runtime ctor" "VStr ''5''" "VStr ''5''" "VStr ''5''" "VStr ''5''"]
    by (simp add: eval_simps probe_member_def)
qed

section \<open>The transformed value is carried from member to member\<close>

text \<open>
  C9. When the transform of a union member succeeds with \<open>data'\<close>, the loop goes on to the
  members after it with \<open>data'\<close> in the place of the data it had: when the member is passed
  over, and in strict mode when it matches. The next member's transform therefore runs
  on \<open>data'\<close>, not on the raw value.
\<close>

theorem transformed_value_carried_forward:
  assumes "transform_value rt (type_hooks cfg) (cast cfg) t data = Inr data'"
  shows "(probe_member n rt cfg t data = Skip data'
          \<longrightarrow> union_loop n rt cfg u (t # rest) data matches
              = union_loop n rt cfg u rest data' matches)
       \<and> (strict_unions_match cfg \<and> probe_member n rt cfg t data = Match data' value
          \<longrightarrow> union_loop n rt cfg u (t # rest) data matches
              = union_loop n rt cfg u rest data' (alist_store matches t value))"
  by (simp add: union_loop_step)

text \<open>With the hook \<open>{int: lambda v: "hooked"}\<close> and the value \<open>5\<close> for \<open>Union[int, str]\<close>:
  the member \<open>int\<close> turns the data into \<open>"hooked"\<close> and is passed over, and the member
  \<open>str\<close> then matches \<open>"hooked"\<close>; probed on the raw \<open>5\<close>, \<open>str\<close> would not match.\<close>

theorem transformed_value_carried_forward_witness:
  "\<forall>ctor. union_loop (Suc 0) (basic_runtime ctor)
      (Config\<lparr>type_hooks := map_of [(TClass CInt, constant_hook (VStr ''hooked''))]\<rparr>)
      (TUnion [TClass CInt, TClass CStr]) [TClass CInt, TClass CStr] (VInt 5) []
     = Some (Inr (VStr ''hooked''))
   \<and> union_loop (Suc 0) (basic_runtime ctor)
      (Config\<lparr>type_hooks := map_of [(TClass CInt, constant_hook (VStr ''hooked''))]\<rparr>)
      (TUnion [TClass CInt, TClass CStr]) [TClass CStr] (VInt 5) []
     = Some (Inl (UnionMatchError [] (TUnion [TClass CInt, TClass CStr]) (VInt 5)))" (is "\<forall>ctor. ?P ctor")
proof
  fix ctor
  show "?P ctor"
    using transformed_value_carried_forward [of "basic_runtime ctor"
            "Config\<lparr>type_hooks := map_of [(TClass CInt, constant_hook (VStr ''hooked''))]\<rparr>"
            "TClass CInt" "VInt 5" "VStr ''hooked''" "Suc 0" "TUnion [TClass CInt, TClass CStr]"
            "[TClass CStr]" "[]" "VInt 0"]
    by (simp add: eval_simps probe_member_def)
qed

section \<open>The record assembler: unexpected keys and defaults\<close>

lemma extra_fields_eq:
  "set (filter (\<lambda>k. k \<notin> set (map (\<lambda>f. VStr (f_name f)) flds)) (map fst data))
   = {key \<in> fst ` set data. key \<notin> (\<lambda>f. VStr (f_name f)) ` set flds}"
  by auto

text \<open>
  C7, as stated, fails: the type hints are resolved before the keys are checked. For a
  strict-mode call on a data class one of whose annotations names an undefined \<open>B\<close>, with
  the unexpected key \<open>"b"\<close> in the raw data, \<open>from_dict\<close> raises \<open>ForwardReferenceError\<close>
  and not \<open>UnexpectedDataError\<close>.
\<close>

theorem strict_unresolved_hints_counterexample:
  "\<forall>ctor. strict (Config\<lparr>strict := True\<rparr>)
     \<and> VStr ''b'' \<in> fst ` set [(VStr ''a'', VInt 1), (VStr ''b'', VInt 2)]
     \<and> VStr ''b'' \<notin> (\<lambda>f. VStr (f_name f)) ` set (get_fields
          ((plain_class ''X'' [(''a'', TClass CInt)])\<lparr>dc_type_hints := Inl ''B''\<rparr>))
     \<and> from_dict 0 (basic_runtime ctor) (Config\<lparr>strict := True\<rparr>)
          ((plain_class ''X'' [(''a'', TClass CInt)])\<lparr>dc_type_hints := Inl ''B''\<rparr>)
          [(VStr ''a'', VInt 1), (VStr ''b'', VInt 2)]
        = Some (Inl (ForwardReferenceError ''B''))"
  by (simp add: from_dict.simps get_data_class_hints_def get_fields_def plain_class_def)

text \<open>
  C7, amended. For a strict-mode call of \<open>from_dict\<close> whose type hints resolve: if the raw
  data has a key that is not the name of a declared field, the call raises
  \<open>UnexpectedDataError\<close> with exactly the keys of the raw data that are no field names. No
  field is processed before: the result is the same for every hook table, cast list and
  class table, and needs no fuel for a build.
\<close>

theorem strict_rejects_unexpected_keys:
  assumes "strict cfg"
    and "get_data_class_hints data_class = Inr hints"
    and "\<exists>key \<in> fst ` set data. key \<notin> (\<lambda>f. VStr (f_name f)) ` set (get_fields data_class)"
  shows "from_dict n rt cfg data_class data =
           Some (Inl (UnexpectedDataError
                  {key \<in> fst ` set data. key \<notin> (\<lambda>f. VStr (f_name f)) ` set (get_fields data_class)}))"
proof -
  let ?extra = "{key \<in> fst ` set data. key \<notin> (\<lambda>f. VStr (f_name f)) ` set (get_fields data_class)}"
  from assms(3) have ne: "?extra \<noteq> {}" by blast
  have "from_dict n rt cfg data_class data =
          (if strict cfg \<and> ?extra \<noteq> {} then Some (Inl (UnexpectedDataError ?extra))
           else (case from_dict_fields n rt cfg hints data (get_fields data_class) [] [] of
                   None \<Rightarrow> None
                 | Some (Inl e) \<Rightarrow> Some (Inl e)
                 | Some (Inr (init_values, post_init_values)) \<Rightarrow>
                     Some (Inr (create_instance data_class init_values post_init_values))))"
    unfolding from_dict.simps assms(2) Let_def extra_fields_eq by simp
  with assms(1) ne show ?thesis by simp
qed

text \<open>Scenario D of the specification: the strict record \<open>{a: int}\<close> and the input
  \<open>{"a": 1, "b": 2}\<close>.\<close>

theorem strict_rejects_unexpected_keys_witness:
  "\<forall>ctor. from_dict 0 (basic_runtime ctor) (Config\<lparr>strict := True\<rparr>) (plain_class ''X'' [(''a'', TClass CInt)])
      [(VStr ''a'', VInt 1), (VStr ''b'', VInt 2)]
     = Some (Inl (UnexpectedDataError {VStr ''b''}))"
proof -
  have fields: "get_fields (plain_class ''X'' [(''a'', TClass CInt)])
                  = [\<lparr> f_name = ''a'', f_init = True, f_default = None \<rparr>]"
    by (simp add: get_fields_def plain_class_def)
  have extra: "{key \<in> fst ` set [(VStr ''a'', VInt 1), (VStr ''b'', VInt 2)].
          key \<notin> (\<lambda>f. VStr (f_name f)) ` set (get_fields (plain_class ''X'' [(''a'', TClass CInt)]))}
        = {VStr ''b''}"
    unfolding fields by auto
  have hints: "get_data_class_hints (plain_class ''X'' [(''a'', TClass CInt)]) = Inr [(''a'', TClass CInt)]"
    by (simp add: get_data_class_hints_def plain_class_def is_init_var_def)
  have strict: "strict (Config\<lparr>strict := True\<rparr>)" by simp
  have "VStr ''b'' \<in> fst ` set [(VStr ''a'', VInt 1), (VStr ''b'', VInt 2)]" by simp
  moreover have "VStr ''b'' \<notin> (\<lambda>f. VStr (f_name f)) ` set (get_fields (plain_class ''X'' [(''a'', TClass CInt)]))"
    unfolding fields by simp
  ultimately have ex: "\<exists>key \<in> fst ` set [(VStr ''a'', VInt 1), (VStr ''b'', VInt 2)].
      key \<notin> (\<lambda>f. VStr (f_name f)) ` set (get_fields (plain_class ''X'' [(''a'', TClass CInt)]))"
    by blast
  show ?thesis
  proof
    fix ctor
    show "from_dict 0 (basic_runtime ctor) (Config\<lparr>strict := True\<rparr>)
            (plain_class ''X'' [(''a'', TClass CInt)]) [(VStr ''a'', VInt 1), (VStr ''b'', VInt 2)]
          = Some (Inl (UnexpectedDataError {VStr ''b''}))"
      using strict_rejects_unexpected_keys [OF strict hints ex, of 0 "basic_runtime ctor"]
      unfolding extra .
  qed
qed

text \<open>
  C10. In the loop of \<open>from_dict\<close> over the fields, a constructor field that is absent
  from the raw data and gets its value from \<open>get_default_value_for_field\<close> (the declared
  default, or \<open>None\<close> through \<open>allow_missing_fields_as_none\<close>) is bound to that value with
  no conformance check, whatever \<open>check_types\<close> is and whether or not the value conforms;
  a field present in the raw data whose built value does not conform raises
  \<open>WrongTypeError\<close> when \<open>check_types\<close> is on.
\<close>

theorem type_check_only_for_present_fields:
  assumes "map_of hints (f_name fld) = Some field_type"
  shows "(dict_get data (VStr (f_name fld)) = None \<and> f_init fld
          \<and> get_default_value_for_field fld field_type (allow_missing_fields_as_none cfg)
              = Some value
          \<longrightarrow> from_dict_fields n rt cfg hints data (fld # flds) init_values post_init_values =
                from_dict_fields n rt cfg hints data flds
                  (alist_store init_values (f_name fld) value) post_init_values)
       \<and> (dict_get data (VStr (f_name fld)) = Some field_data \<and> check_types cfg
          \<and> transform_value rt (type_hooks cfg) (cast cfg) field_type field_data
              = Inr transformed_value
          \<and> build_value n rt cfg field_type transformed_value = Some (Inr value)
          \<and> is_instance value field_type = Inr False
          \<longrightarrow> from_dict_fields n rt cfg hints data (fld # flds) init_values post_init_values =
                Some (Inl (WrongTypeError [f_name fld] field_type value)))"
  using assms by (simp add: from_dict_fields.simps)

text \<open>With \<open>check_types\<close> on: the default \<open>"oops"\<close> of a field \<open>n: int\<close> is bound although it
  is no \<open>int\<close>, and the same value given in the raw data raises \<open>WrongTypeError\<close>; a missing
  \<open>Optional[int]\<close> field becomes \<open>None\<close> under \<open>allow_missing_fields_as_none\<close>.\<close>

theorem type_check_only_for_present_fields_witness:
  "\<forall>ctor. check_types Config
   \<and> is_instance (VStr ''oops'') (TClass CInt) = Inr False
   \<and> from_dict 0 (basic_runtime ctor) Config (class_with_default ''X'' ''n'' (TClass CInt) (VStr ''oops'')) []
     = Some (Inr (VObj ''X'' [(''n'', VStr ''oops'')]))
   \<and> from_dict (Suc 0) (basic_runtime ctor) Config
        (class_with_default ''X'' ''n'' (TClass CInt) (VStr ''oops'')) [(VStr ''n'', VStr ''oops'')]
     = Some (Inl (WrongTypeError [''n''] (TClass CInt) (VStr ''oops'')))
   \<and> from_dict 0 (basic_runtime ctor) (Config\<lparr>allow_missing_fields_as_none := True\<rparr>)
        (plain_class ''Y'' [(''n'', TUnion [TClass CInt, TClass CNoneType])]) []
     = Some (Inr (VObj ''Y'' [(''n'', VNone)]))" (is "\<forall>ctor. ?P ctor")
proof
  fix ctor
  show "?P ctor"
    using type_check_only_for_present_fields [of "[(''n'', TClass CInt)]"
            "\<lparr> f_name = ''n'', f_init = True, f_default = Some (VStr ''oops'') \<rparr>" "TClass CInt" "[]"
            Config "VStr ''oops''" 0 "basic_runtime ctor" "[]" "[]" "[]"]
          type_check_only_for_present_fields [of "[(''n'', TClass CInt)]"
            "\<lparr> f_name = ''n'', f_init = True, f_default = Some (VStr ''oops'') \<rparr>" "TClass CInt"
            "[(VStr ''n'', VStr ''oops'')]" Config "VStr ''oops''" "Suc 0" "basic_runtime ctor" "[]" "[]" "[]"
            "VStr ''oops''" "VStr ''oops''"]
          type_check_only_for_present_fields [of "[(''n'', TUnion [TClass CInt, TClass CNoneType])]"
            "\<lparr> f_name = ''n'', f_init = True, f_default = None \<rparr>"
            "TUnion [TClass CInt, TClass CNoneType]" "[]"
            "Config\<lparr>allow_missing_fields_as_none := True\<rparr>" VNone 0 "basic_runtime ctor" "[]" "[]" "[]"]
    by (simp add: eval_simps class_with_default_def)
qed

section \<open>The concrete scenarios of the specification\<close>

text \<open>Scenario A: the record \<open>{id: int, tags: list[str]}\<close> and the input
  \<open>{"id": 1, "tags": ["a", "b"]}\<close>.\<close>

lemma scenario_A:
  "from_dict (Suc (Suc n)) (basic_runtime ctor) Config
     (plain_class ''R'' [(''id'', TClass CInt), (''tags'', TGeneric CList [TClass CStr])])
     [(VStr ''id'', VInt 1), (VStr ''tags'', VList [VStr ''a'', VStr ''b''])]
   = Some (Inr (VObj ''R'' [(''id'', VInt 1), (''tags'', VList [VStr ''a'', VStr ''b''])]))"
  by (simp add: eval_simps)

text \<open>Scenario B: the record \<open>{value: int | str}\<close> and the input \<open>{"value": "5"}\<close>, with no
  hooks: the \<open>str\<close> member matches.\<close>

lemma scenario_B:
  "from_dict (Suc (Suc n)) (basic_runtime ctor) Config
     (plain_class ''R'' [(''value'', TUnion [TClass CInt, TClass CStr])])
     [(VStr ''value'', VStr ''5'')]
   = Some (Inr (VObj ''R'' [(''value'', VStr ''5'')]))"
  by (simp add: eval_simps)

text \<open>Scenario C: the record \<open>{n: Optional[int]}\<close> with the declared default \<open>None\<close> and the
  input \<open>{}\<close>.\<close>

lemma scenario_C:
  "from_dict n (basic_runtime ctor) Config
     (class_with_default ''R'' ''n'' (TUnion [TClass CInt, TClass CNoneType]) VNone) []
   = Some (Inr (VObj ''R'' [(''n'', VNone)]))"
  by (simp add: eval_simps class_with_default_def)

text \<open>Scenario E, through \<open>from_dict\<close>: the record \<open>{pair: Tuple[int, int]}\<close> and the input
  \<open>{"pair": (1, 2, 3)}\<close> with type checking on. The tuple is rebuilt with its three
  elements and then fails the check.\<close>

lemma scenario_E:
  "from_dict (Suc (Suc n)) (basic_runtime ctor) Config
     (plain_class ''R'' [(''pair'', TGeneric CTuple [TClass CInt, TClass CInt])])
     [(VStr ''pair'', VTuple [VInt 1, VInt 2, VInt 3])]
   = Some (Inl (WrongTypeError [''pair''] (TGeneric CTuple [TClass CInt, TClass CInt])
                  (VTuple [VInt 1, VInt 2, VInt 3])))"
  by (simp add: eval_simps)

end
